theory Spec2Isabelle
  imports Main "HOL-Library.Word"
begin

unbundle bit_operations_syntax

section \<open>Machine types\<close>

text \<open>
  \<open>byte\<close> and \<open>uint8_t\<close> are 8-bit words, \<open>uint32_t\<close> and \<open>unsigned long\<close>
  (the values of \<open>millis()\<close> and \<open>micros()\<close>) are 32-bit words. \<open>unsigned int\<close> is
  16 bits wide on the AVR boards and 32 bits wide on the ESP32 and RP2040 boards the
  header names. The node and event numbers of the dispatcher are made of two payload
  bytes and fit both; they are 16-bit words here. The counters of the circular buffer
  can wrap around, and their width is left open.
\<close>

type_synonym byte = "8 word"
type_synonym ulong = "32 word"
type_synonym uint = "16 word"

section \<open>CAN frames (CBUS.h)\<close>

text \<open>
  \<^verbatim>\<open>class CANFrame { uint32_t id; bool ext; bool rtr; uint8_t len; uint8_t data[8] = {}; }\<close>.
  The field \<open>id\<close> is named \<open>id_f\<close> here. The payload array is a list of bytes; a
  frame of the program has eight of them.
\<close>

record CANFrame =
  id_f :: "32 word"
  ext :: bool
  rtr :: bool
  len :: byte
  data :: "byte list"

definition frame_ok :: "CANFrame \<Rightarrow> bool" where
  "frame_ok f = (length (data f) = 8)"

section \<open>The circular buffer (class \<open>circular_buffer2\<close>)\<close>

text \<open>
  \<^verbatim>\<open>typedef struct _buffer_entry2 { unsigned long _item_insert_time; CANFrame _item; }\<close>
\<close>

record buffer_entry2_t =
  item_insert_time :: ulong
  item :: CANFrame

text \<open>
  The private members of the class. The three counters are \<open>unsigned int\<close>; the record
  leaves their width \<open>'w\<close> open, so that what is proved holds on every board. The
  array \<open>_buffer\<close> comes from \<open>malloc\<close>: a slot that was never written holds
  \<open>None\<close>.
\<close>

record (overloaded) ('w::len) circular_buffer2 =
  m_full :: bool
  m_head :: byte
  m_tail :: byte
  m_capacity :: byte
  m_size :: byte
  m_hwm :: byte
  m_puts :: "'w word"
  m_gets :: "'w word"
  m_overflows :: "'w word"
  m_buffer :: "buffer_entry2_t option list"

text \<open>The constructor \<open>circular_buffer2::circular_buffer2(byte num_items)\<close>.\<close>

definition circular_buffer2 :: "byte \<Rightarrow> ('w::len) circular_buffer2" where
  "circular_buffer2 num_items =
     \<lparr> m_full = False, m_head = 0, m_tail = 0, m_capacity = num_items, m_size = 0,
       m_hwm = 0, m_puts = 0, m_gets = 0, m_overflows = 0,
       m_buffer = replicate (unat num_items) None \<rparr>"

definition available :: "('w::len) circular_buffer2 \<Rightarrow> bool" where
  "available cb = (m_size cb > 0)"

text \<open>
  \<open>(x + 1) % _capacity\<close>: the operands are promoted to \<open>int\<close>, so the sum does not
  wrap at 256 before the remainder is taken. (With \<open>_capacity = 0\<close> the C expression is
  undefined; HOL's \<open>mod\<close> then returns the sum.)
\<close>

definition next_index :: "byte \<Rightarrow> byte \<Rightarrow> byte" where
  "next_index x capacity = of_nat ((unat x + 1) mod unat capacity)"

text \<open>
  \<open>circular_buffer2::size\<close> recomputes the number of stored items, stores it in
  \<open>_size\<close> and returns it. The differences are computed in \<open>int\<close> and stored
  into a \<open>byte\<close>, which is arithmetic modulo 256.
\<close>

definition size_cb :: "('w::len) circular_buffer2 \<Rightarrow> byte \<times> 'w circular_buffer2" where
  "size_cb cb =
     (let size0 = m_capacity cb;
          size1 = (if \<not> m_full cb then
                     (if m_head cb \<ge> m_tail cb then m_head cb - m_tail cb
                      else m_capacity cb + m_head cb - m_tail cb)
                   else size0)
      in (size1, cb\<lparr>m_size := size1\<rparr>))"

text \<open>
  \<open>circular_buffer2::put\<close>; \<open>micros\<close> is the value \<open>micros()\<close> returns at the call.
\<close>

definition put :: "('w::len) circular_buffer2 \<Rightarrow> CANFrame \<Rightarrow> ulong \<Rightarrow> 'w circular_buffer2" where
  "put cb item_in micros =
     (let cb1 = cb\<lparr>m_buffer := (m_buffer cb)[unat (m_head cb) :=
                       Some \<lparr>item_insert_time = micros, item = item_in\<rparr>]\<rparr>;
          cb2 = (if m_full cb1
                 then cb1\<lparr>m_tail := next_index (m_tail cb1) (m_capacity cb1),
                          m_overflows := m_overflows cb1 + 1\<rparr>
                 else cb1);
          cb3 = cb2\<lparr>m_head := next_index (m_head cb2) (m_capacity cb2)\<rparr>;
          cb4 = cb3\<lparr>m_full := (m_head cb3 = m_tail cb3)\<rparr>;
          cb5 = snd (size_cb cb4);
          cb6 = cb5\<lparr>m_hwm := (if m_size cb5 > m_hwm cb5 then m_size cb5 else m_hwm cb5)\<rparr>
      in cb6\<lparr>m_puts := m_puts cb6 + 1\<rparr>)"

text \<open>
  \<open>circular_buffer2::get\<close> returns a pointer into \<open>_buffer\<close>, or \<open>nullptr\<close>: the
  model returns the index of the slot, or \<open>None\<close>.
\<close>

definition get :: "('w::len) circular_buffer2 \<Rightarrow> nat option \<times> 'w circular_buffer2" where
  "get cb =
     (if m_size cb > 0 then
        (let p = unat (m_tail cb);
             cb1 = cb\<lparr>m_full := False\<rparr>;
             cb2 = cb1\<lparr>m_tail := next_index (m_tail cb1) (m_capacity cb1)\<rparr>;
             cb3 = snd (size_cb cb2)
         in (Some p, cb3\<lparr>m_gets := m_gets cb3 + 1\<rparr>))
      else (None, cb))"

definition insert_time :: "('w::len) circular_buffer2 \<Rightarrow> ulong option" where
  "insert_time cb = map_option item_insert_time (m_buffer cb ! unat (m_tail cb))"

definition peek :: "('w::len) circular_buffer2 \<Rightarrow> nat option" where
  "peek cb = (if m_size cb = 0 then None else Some (unat (m_tail cb)))"

definition clear :: "('w::len) circular_buffer2 \<Rightarrow> 'w circular_buffer2" where
  "clear cb = cb\<lparr>m_head := 0, m_tail := 0, m_full := False, m_size := 0\<rparr>"

definition hwm :: "('w::len) circular_buffer2 \<Rightarrow> byte" where
  "hwm cb = m_hwm cb"

definition full :: "('w::len) circular_buffer2 \<Rightarrow> bool" where
  "full cb = m_full cb"

definition empty_cb :: "('w::len) circular_buffer2 \<Rightarrow> bool" where
  "empty_cb cb = (\<not> m_full cb \<and> m_head cb = m_tail cb)"

definition free_slots :: "('w::len) circular_buffer2 \<Rightarrow> byte" where
  "free_slots cb = m_capacity cb - m_size cb"

definition puts :: "('w::len) circular_buffer2 \<Rightarrow> 'w word" where
  "puts cb = m_puts cb"

definition gets :: "('w::len) circular_buffer2 \<Rightarrow> 'w word" where
  "gets cb = m_gets cb"

definition overflows :: "('w::len) circular_buffer2 \<Rightarrow> 'w word" where
  "overflows cb = m_overflows cb"

text \<open>
  A client's calls of \<open>put\<close> and \<open>get\<close>, one after the other on the same object.
\<close>

datatype cb_op = Put CANFrame ulong | Get

fun cb_step :: "('w::len) circular_buffer2 \<Rightarrow> cb_op \<Rightarrow> 'w circular_buffer2" where
  "cb_step cb (Put f t) = put cb f t"
| "cb_step cb Get = snd (get cb)"

definition cb_run :: "('w::len) circular_buffer2 \<Rightarrow> cb_op list \<Rightarrow> 'w circular_buffer2" where
  "cb_run cb ops = foldl cb_step cb ops"

text \<open>The values \<open>_size\<close> has taken: at construction and after each call so far.\<close>

definition size_history :: "('w::len) circular_buffer2 \<Rightarrow> cb_op list \<Rightarrow> byte list" where
  "size_history cb ops = map (\<lambda>k. m_size (cb_run cb (take k ops))) [0 ..< Suc (length ops)]"


text \<open>
  The representation invariant of the buffer, used in the proofs below: the indices stay
  below the capacity, a full buffer has \<open>_head = _tail\<close>, \<open>_size\<close> is the distance
  from \<open>_tail\<close> to \<open>_head\<close> around the ring, the counters balance, and the high-water
  mark bounds the size.
\<close>

definition cb_inv :: "('w::len) circular_buffer2 \<Rightarrow> bool" where
  "cb_inv cb = (0 < m_capacity cb \<and> m_head cb < m_capacity cb \<and> m_tail cb < m_capacity cb \<and>
     (m_full cb \<longrightarrow> m_head cb = m_tail cb) \<and>
     unat (m_size cb) = (if m_full cb then unat (m_capacity cb) else
        (unat (m_capacity cb) + unat (m_head cb) - unat (m_tail cb)) mod unat (m_capacity cb)) \<and>
     m_puts cb = m_gets cb + ucast (m_size cb) + m_overflows cb \<and>
     m_size cb \<le> m_hwm cb \<and>
     length (m_buffer cb) = unat (m_capacity cb))"


text \<open>Concrete values for the worked examples.\<close>

definition example_frame :: CANFrame where
  "example_frame = \<lparr>id_f = 1, ext = False, rtr = False, len = 1, data = [1, 0, 0, 0, 0, 0, 0, 0]\<rparr>"

definition six_puts :: "cb_op list" where
  "six_puts = [Put example_frame 0, Put example_frame 1, Put example_frame 2,
               Put example_frame 3, Put example_frame 4, Put example_frame 5]"


section \<open>Operation codes (\<open>cbusdefs.h\<close>)\<close>

text \<open>
  The header \<open>cbusdefs.h\<close> with the numeric values of the operation codes is not among
  the sources. The names the dispatcher uses are the constructors of \<open>opcode\<close>, and
  every function that needs their values takes the table \<open>defs :: opcode \<Rightarrow> byte\<close>
  as its first argument. The labels of a C \<open>switch\<close> are pairwise different; the
  theorems assume that the table is injective.
\<close>

datatype opcode =
    OPC_ACON | OPC_ACON1 | OPC_ACON2 | OPC_ACON3
  | OPC_ACOF | OPC_ACOF1 | OPC_ACOF2 | OPC_ACOF3
  | OPC_ARON | OPC_AROF
  | OPC_ASON | OPC_ASON1 | OPC_ASON2 | OPC_ASON3
  | OPC_ASOF | OPC_ASOF1 | OPC_ASOF2 | OPC_ASOF3
  | OPC_RQNP | OPC_RQNPN | OPC_SNN | OPC_RQNN | OPC_CANID | OPC_ENUM
  | OPC_NVRD | OPC_NVSET | OPC_NNLRN | OPC_EVULN | OPC_NNULN | OPC_RQEVN
  | OPC_NERD | OPC_REVAL | OPC_NNCLR | OPC_NNEVN | OPC_QNN | OPC_RQMN
  | OPC_EVLRN | OPC_BOOT | OPC_RSTAT | OPC_DTXC
  | OPC_WRACK | OPC_CMDERR | OPC_PARAMS | OPC_PARAN | OPC_NNACK | OPC_NNREL
  | OPC_NVANS | OPC_NUMEV | OPC_ENRSP | OPC_NEVAL | OPC_EVNLF | OPC_PNN | OPC_NAME

type_synonym cbusdefs = "opcode \<Rightarrow> byte"

section \<open>Arduino macros\<close>

text \<open>
  \<^verbatim>\<open>highByte(w) ((uint8_t) ((w) >> 8))\<close>, \<^verbatim>\<open>lowByte(w) ((uint8_t) ((w) & 0xff))\<close>,
  \<^verbatim>\<open>bitRead(value, bit) (((value) >> (bit)) & 0x01)\<close>,
  \<^verbatim>\<open>bitSet(value, bit) ((value) |= (1UL << (bit)))\<close>,
  \<^verbatim>\<open>bitClear(value, bit) ((value) &= ~(1UL << (bit)))\<close>,
  \<^verbatim>\<open>bitWrite(value, bit, bitvalue) ((bitvalue) ? bitSet(value, bit) : bitClear(value, bit))\<close>,
  applied to bytes.
\<close>

definition highByte :: "uint \<Rightarrow> byte" where
  "highByte w = ucast (drop_bit 8 w)"

definition lowByte :: "uint \<Rightarrow> byte" where
  "lowByte w = ucast (w AND 0xff)"

definition bitRead :: "byte \<Rightarrow> nat \<Rightarrow> byte" where
  "bitRead v b = drop_bit b v AND 1"

definition bitSet :: "byte \<Rightarrow> nat \<Rightarrow> byte" where
  "bitSet v b = v OR push_bit b 1"

definition bitClear :: "byte \<Rightarrow> nat \<Rightarrow> byte" where
  "bitClear v b = v AND NOT (push_bit b 1)"

definition bitWrite :: "byte \<Rightarrow> nat \<Rightarrow> bool \<Rightarrow> byte" where
  "bitWrite v b bitvalue = (if bitvalue then bitSet v b else bitClear v b)"

section \<open>The collaborators of \<open>CBUSbase\<close>\<close>

subsection \<open>The configuration object (\<open>CBUSconfig.h\<close>)\<close>

text \<open>
  The class \<open>CBUSConfig\<close> is not among the sources. The dispatcher reads its public
  members \<open>nodeNum\<close>, \<open>CANID\<close>, \<open>FLiM\<close>, \<open>EE_MAX_EVENTS\<close>, \<open>EE_NUM_NVS\<close> and
  \<open>EE_NUM_EVS\<close>, and calls its methods. The members are fields of the record below;
  \<open>storage\<close> stands for everything else the object keeps (event table, event hash
  table, node variables), of a type \<open>'st\<close> left open.
\<close>

record 'st CBUSConfig =
  nodeNum :: uint
  CANID :: byte
  FLiM :: bool
  EE_MAX_EVENTS :: byte
  EE_NUM_NVS :: byte
  EE_NUM_EVS :: byte
  storage :: 'st

text \<open>
  Modelled from the spec: the mutators \<open>setNodeNum\<close>, \<open>setCANID\<close> and \<open>setFLiM\<close> of
  the configuration store, which is not among the sources (``\<open>node_number\<close>,
  \<open>local_id\<close>, \<open>flexible_mode\<close> accessors and mutators (setters persist)''): each
  stores its argument in the member the dispatcher reads back.
\<close>

definition setNodeNum :: "'st CBUSConfig \<Rightarrow> uint \<Rightarrow> 'st CBUSConfig" where
  "setNodeNum c nn = c\<lparr>nodeNum := nn\<rparr>"

definition setCANID :: "'st CBUSConfig \<Rightarrow> byte \<Rightarrow> 'st CBUSConfig" where
  "setCANID c canid = c\<lparr>CANID := canid\<rparr>"

definition setFLiM :: "'st CBUSConfig \<Rightarrow> bool \<Rightarrow> 'st CBUSConfig" where
  "setFLiM c f = c\<lparr>FLiM := f\<rparr>"

text \<open>
  The methods of \<open>CBUSConfig\<close> that work on the event table, the hash table and the
  node variables are parameters of the model: a record of functions on \<open>'st\<close>, one per
  method the dispatcher calls, with the argument and result types of the calls.
  \<open>writeEvent\<close> is handed the pointer \<open>&msg->data[1]\<close>, here the payload from byte 1
  on; \<open>readEvent\<close> fills the bytes at the pointer it is given, here it returns them.
\<close>

record 'st CBUSConfig_methods =
  findExistingEvent :: "'st \<Rightarrow> uint \<Rightarrow> uint \<Rightarrow> byte"
  findEventSpace :: "'st \<Rightarrow> byte"
  writeEvent :: "'st \<Rightarrow> byte \<Rightarrow> byte list \<Rightarrow> 'st"
  updateEvHashEntry :: "'st \<Rightarrow> byte \<Rightarrow> 'st"
  writeEventEV :: "'st \<Rightarrow> byte \<Rightarrow> byte \<Rightarrow> byte \<Rightarrow> 'st"
  getEventEVval :: "'st \<Rightarrow> byte \<Rightarrow> byte \<Rightarrow> byte"
  getEvTableEntry :: "'st \<Rightarrow> byte \<Rightarrow> byte"
  cleareventEEPROM :: "'st \<Rightarrow> byte \<Rightarrow> 'st"
  clearEvHashTable :: "'st \<Rightarrow> 'st"
  readNV :: "'st \<Rightarrow> byte \<Rightarrow> byte"
  writeNV :: "'st \<Rightarrow> byte \<Rightarrow> byte \<Rightarrow> 'st"
  numEvents :: "'st \<Rightarrow> byte"
  readEvent :: "'st \<Rightarrow> byte \<Rightarrow> byte list"

subsection \<open>LEDs and user callbacks\<close>

text \<open>
  \<open>CBUSLED\<close> is not among the sources: an LED is the list of the calls made on it,
  oldest first. The user's event handlers and the long message handler are function
  pointers: the state records whether each is registered, and the calls made.
\<close>

datatype led_call = LED_on | LED_off | LED_blink | LED_pulse | LED_run

datatype handler_call =
    EventHandler byte CANFrame
  | EventHandlerEx byte CANFrame bool byte

section \<open>The class \<open>CBUSbase\<close>\<close>

text \<open>
  The members of \<open>CBUSbase\<close> the message processing uses (a leading underscore of the
  source is written \<open>m_\<close>), and three traces of what leaves the object: the frames
  handed to \<open>sendMessage\<close>, the calls of the user's event handlers, and the frames
  handed to the long message handler.
\<close>

record 'st CBUSbase =
  m_msg :: CANFrame
  m_ledGrn :: "led_call list"
  m_ledYlw :: "led_call list"
  module_config :: "'st CBUSConfig"
  m_mparams :: "byte list"
  m_mname :: "byte list"
  eventhandler :: bool
  eventhandlerex :: bool
  longMessageHandler :: bool
  enum_responses :: "byte list"
  bModeChanging :: bool
  bCANenum :: bool
  bLearn :: bool
  timeOutTimer :: ulong
  CANenumTime :: ulong
  enumeration_required :: bool
  UI :: bool
  sent :: "CANFrame list"
  handler_calls :: "handler_call list"
  long_fragments :: "CANFrame list"

text \<open>\<^verbatim>\<open>#define DEFAULT_PRIORITY 0xB\<close>, \<^verbatim>\<open>enum { MODE_SLIM = 0, MODE_FLIM = 1, MODE_CHANGING = 2 }\<close>.\<close>

definition DEFAULT_PRIORITY :: byte where
  "DEFAULT_PRIORITY = 0xB"

definition MODE_SLIM :: byte where "MODE_SLIM = 0"
definition MODE_FLIM :: byte where "MODE_FLIM = 1"
definition MODE_CHANGING :: byte where "MODE_CHANGING = 2"

text \<open>\<open>getCANID\<close>: \<^verbatim>\<open>return header & 0x7f;\<close>, returned as a \<open>byte\<close>.\<close>

definition getCANID :: "ulong \<Rightarrow> byte" where
  "getCANID header = ucast (header AND 0x7f)"

text \<open>\<open>makeHeader_impl\<close>: \<^verbatim>\<open>msg->id = (priority << 7) + (id & 0x7f);\<close>\<close>

definition makeHeader_impl :: "CANFrame \<Rightarrow> byte \<Rightarrow> byte \<Rightarrow> CANFrame" where
  "makeHeader_impl msg ident priority =
     msg\<lparr>id_f := push_bit 7 (ucast priority) + ucast (ident AND 0x7f)\<rparr>"

definition makeHeader :: "'st CBUSbase \<Rightarrow> CANFrame \<Rightarrow> byte \<Rightarrow> CANFrame" where
  "makeHeader s msg priority = makeHeader_impl msg (CANID (module_config s)) priority"

text \<open>
  Modelled from the spec: \<open>sendMessage\<close>, pure virtual in \<open>CBUSbase\<close> and implemented by
  the bus driver, which is not among the sources (``\<open>send(frame, remote=false,
  extended=false, priority=0xB)\<close>: serialises the frame, rewriting identifier to
  \<open>(priority<<7) | (local_id & 0x7f)\<close>''). Every call in this file passes \<open>&_msg\<close>, or
  the \<open>msg\<close> that \<open>process\<close> passed as \<open>&_msg\<close>: the header of \<open>_msg\<close> is rewritten with
  \<open>makeHeader\<close>, and the frame goes out with the remote and extended flags of the call.
  The result (success) is not used by any caller that is modelled.
\<close>

definition sendMessage :: "'st CBUSbase \<Rightarrow> bool \<Rightarrow> bool \<Rightarrow> byte \<Rightarrow> 'st CBUSbase" where
  "sendMessage s rtr_arg ext_arg priority =
     (let msg = makeHeader s (m_msg s) priority
      in s\<lparr>m_msg := msg, sent := sent s @ [msg\<lparr>rtr := rtr_arg, ext := ext_arg\<rparr>]\<rparr>)"

text \<open>Assignments to \<open>msg->len\<close> and \<open>msg->data[i]\<close> of the frame \<open>_msg\<close>.\<close>

definition set_len :: "'st CBUSbase \<Rightarrow> byte \<Rightarrow> 'st CBUSbase" where
  "set_len s n = s\<lparr>m_msg := (m_msg s)\<lparr>len := n\<rparr>\<rparr>"

definition set_data :: "'st CBUSbase \<Rightarrow> nat \<Rightarrow> byte \<Rightarrow> 'st CBUSbase" where
  "set_data s i v = s\<lparr>m_msg := (m_msg s)\<lparr>data := (data (m_msg s))[i := v]\<rparr>\<rparr>"

definition get_data :: "'st CBUSbase \<Rightarrow> nat \<Rightarrow> byte" where
  "get_data s i = data (m_msg s) ! i"

text \<open>\<open>sendWRACK\<close> and \<open>sendCMDERR\<close>.\<close>

definition sendWRACK :: "cbusdefs \<Rightarrow> 'st CBUSbase \<Rightarrow> 'st CBUSbase" where
  "sendWRACK defs s =
     (let s1 = set_len s 3;
          s2 = set_data s1 0 (defs OPC_WRACK);
          s3 = set_data s2 1 (highByte (nodeNum (module_config s2)));
          s4 = set_data s3 2 (lowByte (nodeNum (module_config s3)))
      in sendMessage s4 False False DEFAULT_PRIORITY)"

definition sendCMDERR :: "cbusdefs \<Rightarrow> 'st CBUSbase \<Rightarrow> byte \<Rightarrow> 'st CBUSbase" where
  "sendCMDERR defs s cerrno =
     (let s1 = set_len s 4;
          s2 = set_data s1 0 (defs OPC_CMDERR);
          s3 = set_data s2 1 (highByte (nodeNum (module_config s2)));
          s4 = set_data s3 2 (lowByte (nodeNum (module_config s3)));
          s5 = set_data s4 3 cerrno
      in sendMessage s5 False False DEFAULT_PRIORITY)"

text \<open>
  \<open>CANenumeration\<close> starts an enumeration cycle; \<open>now\<close> is the value of \<open>millis()\<close>.
\<close>

definition CANenumeration :: "ulong \<Rightarrow> 'st CBUSbase \<Rightarrow> 'st CBUSbase" where
  "CANenumeration now s =
     (let s1 = s\<lparr>bCANenum := True\<rparr>;
          s2 = s1\<lparr>CANenumTime := now\<rparr>;
          s3 = s2\<lparr>enum_responses := replicate 16 0\<rparr>;
          s4 = set_len s3 0
      in sendMessage s4 True False DEFAULT_PRIORITY)"

text \<open>\<open>indicateMode\<close>: the calls on the two LEDs, made only if \<open>UI\<close> is set.\<close>

definition indicateMode :: "'st CBUSbase \<Rightarrow> byte \<Rightarrow> 'st CBUSbase" where
  "indicateMode s mode =
     (if UI s then
        (if mode = MODE_FLIM then
           s\<lparr>m_ledYlw := m_ledYlw s @ [LED_on], m_ledGrn := m_ledGrn s @ [LED_off]\<rparr>
         else if mode = MODE_SLIM then
           s\<lparr>m_ledYlw := m_ledYlw s @ [LED_off], m_ledGrn := m_ledGrn s @ [LED_on]\<rparr>
         else if mode = MODE_CHANGING then
           s\<lparr>m_ledYlw := m_ledYlw s @ [LED_blink], m_ledGrn := m_ledGrn s @ [LED_off]\<rparr>
         else s)
      else s)"

text \<open>A \<open>bool\<close> passed where a \<open>byte\<close> is expected: \<open>indicateMode(module_config->FLiM)\<close>.\<close>

definition byte_of_bool :: "bool \<Rightarrow> byte" where
  "byte_of_bool b = (if b then 1 else 0)"

text \<open>\<open>setSLiM\<close>, \<open>initFLiM\<close>, \<open>revertSLiM\<close> and \<open>renegotiate\<close>.\<close>

definition setSLiM :: "'st CBUSbase \<Rightarrow> 'st CBUSbase" where
  "setSLiM s =
     (let s1 = s\<lparr>bModeChanging := False\<rparr>;
          s2 = s1\<lparr>module_config := setNodeNum (module_config s1) 0\<rparr>;
          s3 = s2\<lparr>module_config := setFLiM (module_config s2) False\<rparr>;
          s4 = s3\<lparr>module_config := setCANID (module_config s3) 0\<rparr>
      in indicateMode s4 (byte_of_bool (FLiM (module_config s4))))"

definition initFLiM :: "cbusdefs \<Rightarrow> ulong \<Rightarrow> 'st CBUSbase \<Rightarrow> 'st CBUSbase" where
  "initFLiM defs now s =
     (let s1 = indicateMode s MODE_CHANGING;
          s2 = s1\<lparr>bModeChanging := True\<rparr>;
          s3 = s2\<lparr>timeOutTimer := now\<rparr>;
          s4 = set_len s3 3;
          s5 = set_data s4 0 (defs OPC_RQNN);
          s6 = set_data s5 1 (highByte (nodeNum (module_config s5)));
          s7 = set_data s6 2 (lowByte (nodeNum (module_config s6)))
      in sendMessage s7 False False DEFAULT_PRIORITY)"

definition revertSLiM :: "cbusdefs \<Rightarrow> 'st CBUSbase \<Rightarrow> 'st CBUSbase" where
  "revertSLiM defs s =
     (let s1 = set_len s 3;
          s2 = set_data s1 0 (defs OPC_NNREL);
          s3 = set_data s2 1 (highByte (nodeNum (module_config s2)));
          s4 = set_data s3 2 (lowByte (nodeNum (module_config s3)));
          s5 = sendMessage s4 False False DEFAULT_PRIORITY
      in setSLiM s5)"

definition renegotiate :: "cbusdefs \<Rightarrow> ulong \<Rightarrow> 'st CBUSbase \<Rightarrow> 'st CBUSbase" where
  "renegotiate defs now s = initFLiM defs now s"


section \<open>Processing one message\<close>

text \<open>
  \<open>processAccessoryEvent\<close> looks the event up and calls the registered handler.
\<close>

definition processAccessoryEvent ::
  "'st CBUSConfig_methods \<Rightarrow> uint \<Rightarrow> uint \<Rightarrow> bool \<Rightarrow> 'st CBUSbase \<Rightarrow> 'st CBUSbase" where
  "processAccessoryEvent cm nn en is_on_event s =
     (let index = findExistingEvent cm (storage (module_config s)) nn en
      in if index < EE_MAX_EVENTS (module_config s) then
           (if eventhandler s then
              s\<lparr>handler_calls := handler_calls s @ [EventHandler index (m_msg s)]\<rparr>
            else if eventhandlerex s then
              s\<lparr>handler_calls := handler_calls s @
                  [EventHandlerEx index (m_msg s) is_on_event
                     (if EE_NUM_EVS (module_config s) > 0
                      then getEventEVval cm (storage (module_config s)) index 1 else 0)]\<rparr>
            else s)
         else s)"

text \<open>
  The function \<open>process_single_message\<close> is called by \<open>process\<close> with \<open>&_msg\<close>, the
  member that \<open>process\<close> has just filled with the received frame. So \<open>msg\<close> and \<open>_msg\<close>
  are one object, and the model works on the member \<open>m_msg\<close> of the state. The bodies of
  the \<open>case\<close> labels of its \<open>switch\<close> are the definitions \<open>case_OPC_...\<close> below; \<open>nn\<close>,
  \<open>en\<close> and \<open>remoteCANID\<close> are the local variables computed before the \<open>switch\<close>.
\<close>

definition case_accessory_long ::
  "'st CBUSConfig_methods \<Rightarrow> byte \<Rightarrow> uint \<Rightarrow> uint \<Rightarrow> 'st CBUSbase \<Rightarrow> 'st CBUSbase" where
  "case_accessory_long cm opc nn en s =
     (if eventhandler s \<or> eventhandlerex s
      then processAccessoryEvent cm nn en (unat opc mod 2 = 0) s else s)"

definition case_accessory_short ::
  "'st CBUSConfig_methods \<Rightarrow> byte \<Rightarrow> uint \<Rightarrow> 'st CBUSbase \<Rightarrow> 'st CBUSbase" where
  "case_accessory_short cm opc en s =
     (if eventhandler s \<or> eventhandlerex s
      then processAccessoryEvent cm 0 en (unat opc mod 2 = 0) s else s)"

definition case_OPC_RQNP :: "cbusdefs \<Rightarrow> 'st CBUSbase \<Rightarrow> 'st CBUSbase" where
  "case_OPC_RQNP defs s =
     (if bModeChanging s then
        (let s1 = set_len s 8;
             s2 = set_data s1 0 (defs OPC_PARAMS);
             s3 = set_data s2 1 (m_mparams s2 ! 1);
             s4 = set_data s3 2 (m_mparams s3 ! 2);
             s5 = set_data s4 3 (m_mparams s4 ! 3);
             s6 = set_data s5 4 (m_mparams s5 ! 4);
             s7 = set_data s6 5 (m_mparams s6 ! 5);
             s8 = set_data s7 6 (m_mparams s7 ! 6);
             s9 = set_data s8 7 (m_mparams s8 ! 7)
         in sendMessage s9 False False DEFAULT_PRIORITY)
      else s)"

definition case_OPC_RQNPN :: "cbusdefs \<Rightarrow> uint \<Rightarrow> 'st CBUSbase \<Rightarrow> 'st CBUSbase" where
  "case_OPC_RQNPN defs nn s =
     (if nn = nodeNum (module_config s) then
        (let paran = get_data s 3
         in if paran \<le> m_mparams s ! 0 then
              (let paran = get_data s 3;
                   s1 = set_len s 5;
                   s2 = set_data s1 0 (defs OPC_PARAN);
                   s3 = set_data s2 3 paran;
                   s4 = set_data s3 4 (m_mparams s3 ! unat paran)
               in sendMessage s4 False False DEFAULT_PRIORITY)
            else sendCMDERR defs s 9)
      else s)"

definition case_OPC_SNN :: "cbusdefs \<Rightarrow> ulong \<Rightarrow> uint \<Rightarrow> 'st CBUSbase \<Rightarrow> 'st CBUSbase" where
  "case_OPC_SNN defs now nn s =
     (if bModeChanging s then
        (let s1 = s\<lparr>module_config := setNodeNum (module_config s) nn\<rparr>;
             s2 = set_len s1 3;
             s3 = set_data s2 0 (defs OPC_NNACK);
             s4 = sendMessage s3 False False DEFAULT_PRIORITY;
             s5 = s4\<lparr>bModeChanging := False\<rparr>;
             s6 = s5\<lparr>module_config := setFLiM (module_config s5) True\<rparr>;
             s7 = indicateMode s6 (byte_of_bool (FLiM (module_config s6)))
         in CANenumeration now s7)
      else s)"

definition case_OPC_RQNN :: "cbusdefs \<Rightarrow> 'st CBUSbase \<Rightarrow> 'st CBUSbase" where
  "case_OPC_RQNN defs s =
     (if bModeChanging s then
        (let s1 = s\<lparr>bModeChanging := False\<rparr>;
             s2 = indicateMode s1 (byte_of_bool (FLiM (module_config s1)));
             s3 = set_len s2 3;
             s4 = set_data s3 0 (defs OPC_NNACK);
             s5 = set_data s4 1 (highByte (nodeNum (module_config s4)));
             s6 = set_data s5 2 (lowByte (nodeNum (module_config s5)))
         in sendMessage s6 False False DEFAULT_PRIORITY)
      else s)"

definition case_OPC_CANID :: "cbusdefs \<Rightarrow> uint \<Rightarrow> 'st CBUSbase \<Rightarrow> 'st CBUSbase" where
  "case_OPC_CANID defs nn s =
     (if nn = nodeNum (module_config s) then
        (if get_data s 3 < 1 \<or> get_data s 3 > 99 then sendCMDERR defs s 7
         else s\<lparr>module_config := setCANID (module_config s) (get_data s 3)\<rparr>)
      else s)"

definition case_OPC_ENUM :: "ulong \<Rightarrow> uint \<Rightarrow> byte \<Rightarrow> 'st CBUSbase \<Rightarrow> 'st CBUSbase" where
  "case_OPC_ENUM now nn remoteCANID s =
     (if nn = nodeNum (module_config s) \<and> remoteCANID \<noteq> CANID (module_config s) \<and> \<not> bCANenum s
      then CANenumeration now s else s)"

definition case_OPC_NVRD ::
  "cbusdefs \<Rightarrow> 'st CBUSConfig_methods \<Rightarrow> uint \<Rightarrow> 'st CBUSbase \<Rightarrow> 'st CBUSbase" where
  "case_OPC_NVRD defs cm nn s =
     (if nn = nodeNum (module_config s) then
        (let nvindex = get_data s 3
         in if nvindex > EE_NUM_NVS (module_config s) then sendCMDERR defs s 10
            else
              (let s1 = set_len s 5;
                   s2 = set_data s1 0 (defs OPC_NVANS);
                   s3 = set_data s2 4 (readNV cm (storage (module_config s2)) nvindex)
               in sendMessage s3 False False DEFAULT_PRIORITY))
      else s)"

definition case_OPC_NVSET ::
  "cbusdefs \<Rightarrow> 'st CBUSConfig_methods \<Rightarrow> uint \<Rightarrow> 'st CBUSbase \<Rightarrow> 'st CBUSbase" where
  "case_OPC_NVSET defs cm nn s =
     (if nn = nodeNum (module_config s) then
        (if get_data s 3 > EE_NUM_NVS (module_config s) then sendCMDERR defs s 10
         else
           (let s1 = s\<lparr>module_config := (module_config s)\<lparr>storage :=
                        writeNV cm (storage (module_config s)) (get_data s 3) (get_data s 4)\<rparr>\<rparr>
            in sendWRACK defs s1))
      else s)"

definition case_OPC_NNLRN :: "uint \<Rightarrow> 'st CBUSbase \<Rightarrow> 'st CBUSbase" where
  "case_OPC_NNLRN nn s =
     (if nn = nodeNum (module_config s) then
        (let s1 = s\<lparr>bLearn := True\<rparr>
         in s1\<lparr>m_mparams := (m_mparams s1)[8 := bitSet (m_mparams s1 ! 8) 5]\<rparr>)
      else s)"

definition case_OPC_EVULN ::
  "cbusdefs \<Rightarrow> 'st CBUSConfig_methods \<Rightarrow> uint \<Rightarrow> uint \<Rightarrow> 'st CBUSbase \<Rightarrow> 'st CBUSbase" where
  "case_OPC_EVULN defs cm nn en s =
     (if bLearn s then
        (let index = findExistingEvent cm (storage (module_config s)) nn en
         in if index < EE_MAX_EVENTS (module_config s) then
              (let s1 = s\<lparr>module_config := (module_config s)\<lparr>storage :=
                           cleareventEEPROM cm (storage (module_config s)) index\<rparr>\<rparr>;
                   s2 = s1\<lparr>module_config := (module_config s1)\<lparr>storage :=
                           updateEvHashEntry cm (storage (module_config s1)) index\<rparr>\<rparr>
               in sendWRACK defs s2)
            else sendCMDERR defs s 10)
      else s)"

definition case_OPC_NNULN :: "uint \<Rightarrow> 'st CBUSbase \<Rightarrow> 'st CBUSbase" where
  "case_OPC_NNULN nn s =
     (if nn = nodeNum (module_config s) then
        (let s1 = s\<lparr>bLearn := False\<rparr>
         in s1\<lparr>m_mparams := (m_mparams s1)[8 := bitClear (m_mparams s1 ! 8) 5]\<rparr>)
      else s)"

definition case_OPC_RQEVN ::
  "cbusdefs \<Rightarrow> 'st CBUSConfig_methods \<Rightarrow> uint \<Rightarrow> 'st CBUSbase \<Rightarrow> 'st CBUSbase" where
  "case_OPC_RQEVN defs cm nn s =
     (if nn = nodeNum (module_config s) then
        (let s1 = set_len s 4;
             s2 = set_data s1 0 (defs OPC_NUMEV);
             s3 = set_data s2 3 (numEvents cm (storage (module_config s2)))
         in sendMessage s3 False False DEFAULT_PRIORITY)
      else s)"

text \<open>
  \<open>readEvent(i, &msg->data[3])\<close> stores the bytes of the event at \<open>data[3]\<close> onwards;
  \<open>memcpy(msg->data + 1, _mname, 7)\<close> copies seven bytes to \<open>data[1]\<close> onwards.
\<close>

definition copy_to_data :: "'st CBUSbase \<Rightarrow> nat \<Rightarrow> byte list \<Rightarrow> 'st CBUSbase" where
  "copy_to_data s off src = foldl (\<lambda>s' k. set_data s' (off + k) (src ! k)) s [0 ..< length src]"

text \<open>
  The body of the \<open>for\<close> loop of the \<open>OPC_NERD\<close> case, and the loop over
  \<open>i = 0, ..., EE_MAX_EVENTS - 1\<close>. (\<open>delay(10)\<close> lets time pass and changes no member.)
\<close>

definition nerd_step ::
  "'st CBUSConfig_methods \<Rightarrow> 'st CBUSbase \<Rightarrow> nat \<Rightarrow> 'st CBUSbase" where
  "nerd_step cm s i =
     (if getEvTableEntry cm (storage (module_config s)) (of_nat i) \<noteq> 0 then
        (let s1 = copy_to_data s 3 (readEvent cm (storage (module_config s)) (of_nat i));
             s2 = set_data s1 7 (of_nat i)
         in sendMessage s2 False False DEFAULT_PRIORITY)
      else s)"

definition case_OPC_NERD ::
  "cbusdefs \<Rightarrow> 'st CBUSConfig_methods \<Rightarrow> uint \<Rightarrow> 'st CBUSbase \<Rightarrow> 'st CBUSbase" where
  "case_OPC_NERD defs cm nn s =
     (if nn = nodeNum (module_config s) then
        (let s1 = set_len s 8;
             s2 = set_data s1 0 (defs OPC_ENRSP);
             s3 = set_data s2 1 (highByte (nodeNum (module_config s2)));
             s4 = set_data s3 2 (lowByte (nodeNum (module_config s3)))
         in foldl (nerd_step cm) s4 [0 ..< unat (EE_MAX_EVENTS (module_config s4))])
      else s)"

definition case_OPC_REVAL ::
  "cbusdefs \<Rightarrow> 'st CBUSConfig_methods \<Rightarrow> uint \<Rightarrow> 'st CBUSbase \<Rightarrow> 'st CBUSbase" where
  "case_OPC_REVAL defs cm nn s =
     (if nn = nodeNum (module_config s) then
        (if getEvTableEntry cm (storage (module_config s)) (get_data s 3) \<noteq> 0 then
           (let s1 = set_len s 6;
                s2 = set_data s1 0 (defs OPC_NEVAL);
                s3 = set_data s2 5
                       (getEventEVval cm (storage (module_config s2)) (get_data s2 3) (get_data s2 4))
            in sendMessage s3 False False DEFAULT_PRIORITY)
         else sendCMDERR defs s 6)
      else s)"

definition case_OPC_NNCLR ::
  "cbusdefs \<Rightarrow> 'st CBUSConfig_methods \<Rightarrow> uint \<Rightarrow> 'st CBUSbase \<Rightarrow> 'st CBUSbase" where
  "case_OPC_NNCLR defs cm nn s =
     (if bLearn s \<and> nn = nodeNum (module_config s) then
        (let st1 = foldl (\<lambda>st e. cleareventEEPROM cm st (of_nat e)) (storage (module_config s))
                     [0 ..< unat (EE_MAX_EVENTS (module_config s))];
             st2 = clearEvHashTable cm st1;
             s1 = s\<lparr>module_config := (module_config s)\<lparr>storage := st2\<rparr>\<rparr>
         in sendWRACK defs s1)
      else s)"

definition case_OPC_NNEVN ::
  "cbusdefs \<Rightarrow> 'st CBUSConfig_methods \<Rightarrow> uint \<Rightarrow> 'st CBUSbase \<Rightarrow> 'st CBUSbase" where
  "case_OPC_NNEVN defs cm nn s =
     (if nodeNum (module_config s) = nn then
        (let free_slots = foldl (\<lambda>(n :: byte) i.
                 if getEvTableEntry cm (storage (module_config s)) (of_nat i) = 0 then n + 1 else n)
               0 [0 ..< unat (EE_MAX_EVENTS (module_config s))];
             s1 = set_len s 4;
             s2 = set_data s1 0 (defs OPC_EVNLF);
             s3 = set_data s2 3 free_slots
         in sendMessage s3 False False DEFAULT_PRIORITY)
      else s)"

definition case_OPC_QNN :: "cbusdefs \<Rightarrow> 'st CBUSbase \<Rightarrow> 'st CBUSbase" where
  "case_OPC_QNN defs s =
     (if nodeNum (module_config s) > 0 then
        (let s1 = set_len s 6;
             s2 = set_data s1 0 (defs OPC_PNN);
             s3 = set_data s2 1 (highByte (nodeNum (module_config s2)));
             s4 = set_data s3 2 (lowByte (nodeNum (module_config s3)));
             s5 = set_data s4 3 (m_mparams s4 ! 1);
             s6 = set_data s5 4 (m_mparams s5 ! 3);
             s7 = set_data s6 5 (m_mparams s6 ! 8)
         in sendMessage s7 False False DEFAULT_PRIORITY)
      else s)"

definition case_OPC_RQMN :: "cbusdefs \<Rightarrow> 'st CBUSbase \<Rightarrow> 'st CBUSbase" where
  "case_OPC_RQMN defs s =
     (if bModeChanging s then
        (let s1 = set_len s 8;
             s2 = set_data s1 0 (defs OPC_NAME);
             s3 = copy_to_data s2 1 (take 7 (m_mname s2))
         in sendMessage s3 False False DEFAULT_PRIORITY)
      else s)"

definition case_OPC_EVLRN ::
  "cbusdefs \<Rightarrow> 'st CBUSConfig_methods \<Rightarrow> uint \<Rightarrow> uint \<Rightarrow> 'st CBUSbase \<Rightarrow> 'st CBUSbase" where
  "case_OPC_EVLRN defs cm nn en s =
     (let evindex = get_data s 5;
          evval = get_data s 6
      in if bLearn s then
           (let index0 = findExistingEvent cm (storage (module_config s)) nn en;
                index = (if index0 \<ge> EE_MAX_EVENTS (module_config s)
                         then findEventSpace cm (storage (module_config s)) else index0)
            in if index < EE_MAX_EVENTS (module_config s) then
                 (let s1 = (if evindex < 2 then
                              (let t1 = s\<lparr>module_config := (module_config s)\<lparr>storage :=
                                          writeEvent cm (storage (module_config s)) index
                                            (drop 1 (data (m_msg s)))\<rparr>\<rparr>
                               in t1\<lparr>module_config := (module_config t1)\<lparr>storage :=
                                          updateEvHashEntry cm (storage (module_config t1)) index\<rparr>\<rparr>)
                            else s);
                      s2 = s1\<lparr>module_config := (module_config s1)\<lparr>storage :=
                              writeEventEV cm (storage (module_config s1)) index evindex evval\<rparr>\<rparr>
                  in sendWRACK defs s2)
               else sendCMDERR defs s 10)
         else s)"

definition case_OPC_DTXC :: "'st CBUSbase \<Rightarrow> 'st CBUSbase" where
  "case_OPC_DTXC s =
     (if longMessageHandler s then s\<lparr>long_fragments := long_fragments s @ [m_msg s]\<rparr> else s)"

text \<open>The \<open>switch (opc)\<close>, its labels in the order of the source.\<close>

definition opcode_switch ::
  "cbusdefs \<Rightarrow> 'st CBUSConfig_methods \<Rightarrow> ulong \<Rightarrow> byte \<Rightarrow> uint \<Rightarrow> uint \<Rightarrow> byte
     \<Rightarrow> 'st CBUSbase \<Rightarrow> 'st CBUSbase" where
  "opcode_switch defs cm now opc nn en remoteCANID s =
     (if opc \<in> defs ` {OPC_ACON, OPC_ACON1, OPC_ACON2, OPC_ACON3,
                      OPC_ACOF, OPC_ACOF1, OPC_ACOF2, OPC_ACOF3, OPC_ARON, OPC_AROF}
        then case_accessory_long cm opc nn en s
      else if opc \<in> defs ` {OPC_ASON, OPC_ASON1, OPC_ASON2, OPC_ASON3,
                      OPC_ASOF, OPC_ASOF1, OPC_ASOF2, OPC_ASOF3}
        then case_accessory_short cm opc en s
      else if opc = defs OPC_RQNP then case_OPC_RQNP defs s
      else if opc = defs OPC_RQNPN then case_OPC_RQNPN defs nn s
      else if opc = defs OPC_SNN then case_OPC_SNN defs now nn s
      else if opc = defs OPC_RQNN then case_OPC_RQNN defs s
      else if opc = defs OPC_CANID then case_OPC_CANID defs nn s
      else if opc = defs OPC_ENUM then case_OPC_ENUM now nn remoteCANID s
      else if opc = defs OPC_NVRD then case_OPC_NVRD defs cm nn s
      else if opc = defs OPC_NVSET then case_OPC_NVSET defs cm nn s
      else if opc = defs OPC_NNLRN then case_OPC_NNLRN nn s
      else if opc = defs OPC_EVULN then case_OPC_EVULN defs cm nn en s
      else if opc = defs OPC_NNULN then case_OPC_NNULN nn s
      else if opc = defs OPC_RQEVN then case_OPC_RQEVN defs cm nn s
      else if opc = defs OPC_NERD then case_OPC_NERD defs cm nn s
      else if opc = defs OPC_REVAL then case_OPC_REVAL defs cm nn s
      else if opc = defs OPC_NNCLR then case_OPC_NNCLR defs cm nn s
      else if opc = defs OPC_NNEVN then case_OPC_NNEVN defs cm nn s
      else if opc = defs OPC_QNN then case_OPC_QNN defs s
      else if opc = defs OPC_RQMN then case_OPC_RQMN defs s
      else if opc = defs OPC_EVLRN then case_OPC_EVLRN defs cm nn en s
      else if opc = defs OPC_BOOT then s
      else if opc = defs OPC_RSTAT then s
      else if opc = defs OPC_DTXC then case_OPC_DTXC s
      else s)"

text \<open>
  \<open>nn = (msg->data[1] << 8) + msg->data[2]\<close>, stored in an \<open>unsigned int\<close>; likewise \<open>en\<close>.
\<close>

definition word_of_bytes :: "byte \<Rightarrow> byte \<Rightarrow> uint" where
  "word_of_bytes hi lo = push_bit 8 (ucast hi) + ucast lo"

text \<open>The steps of \<open>process_single_message\<close> before the \<open>switch\<close>.\<close>

definition pulse_activity :: "'st CBUSbase \<Rightarrow> 'st CBUSbase" where
  "pulse_activity s = (if UI s then s\<lparr>m_ledGrn := m_ledGrn s @ [LED_pulse]\<rparr> else s)"

definition flag_clash :: "'st CBUSbase \<Rightarrow> 'st CBUSbase" where
  "flag_clash s =
     (if len (m_msg s) > 0 \<and> getCANID (id_f (m_msg s)) = CANID (module_config s)
         \<and> word_of_bytes (get_data s 1) (get_data s 2) \<noteq> nodeNum (module_config s)
      then s\<lparr>enumeration_required := True\<rparr> else s)"

definition record_response :: "'st CBUSbase \<Rightarrow> 'st CBUSbase" where
  "record_response s =
     (let remoteCANID = getCANID (id_f (m_msg s))
      in if remoteCANID > 0 then
           s\<lparr>enum_responses := (enum_responses s)[unat remoteCANID div 16 :=
                bitWrite (enum_responses s ! (unat remoteCANID div 16)) (unat remoteCANID mod 8) True]\<rparr>
         else s)"

definition process_single_message ::
  "cbusdefs \<Rightarrow> 'st CBUSConfig_methods \<Rightarrow> ulong \<Rightarrow> 'st CBUSbase \<Rightarrow> 'st CBUSbase" where
  "process_single_message defs cm now s =
     (let opc = get_data s 0;
          nn = word_of_bytes (get_data s 1) (get_data s 2);
          en = word_of_bytes (get_data s 3) (get_data s 4);
          remoteCANID = getCANID (id_f (m_msg s));
          s1 = pulse_activity s
      in if rtr (m_msg s1) \<and> len (m_msg s1) = 0 then
           sendMessage (set_len s1 0) False False DEFAULT_PRIORITY
         else
           (let s2 = flag_clash s1
            in if ext (m_msg s2) then s2
               else if bCANenum s2 \<and> len (m_msg s2) = 0 then record_response s2
               else if len (m_msg s2) > 0 then opcode_switch defs cm now opc nn en remoteCANID s2
               else s2))"

text \<open>
  The body of the loop of \<open>process\<close> for one received frame: \<open>_msg\<close> is assigned the
  frame and \<open>process_single_message(&_msg)\<close> is called. (The user's frame handler, if
  one is registered, is called in between with the same frame.)
\<close>

definition receive :: "cbusdefs \<Rightarrow> 'st CBUSConfig_methods \<Rightarrow> ulong \<Rightarrow> 'st CBUSbase \<Rightarrow> CANFrame \<Rightarrow> 'st CBUSbase" where
  "receive defs cm now s f = process_single_message defs cm now (s\<lparr>m_msg := f\<rparr>)"

section \<open>The enumeration timer (\<open>checkCANenum\<close>)\<close>

text \<open>
  The inner loop \<open>for (byte b = 0; b < 8; b++)\<close> over the bits of \<open>enum_responses[i]\<close>,
  from \<open>b\<close> on: it leaves through \<open>goto check_done\<close> with \<open>selected_id = i * 16 + b\<close>
  at the first bit that is not set (\<open>Some\<close>), or runs to its end (\<open>None\<close>).
\<close>

function scan_bits :: "byte list \<Rightarrow> nat \<Rightarrow> nat \<Rightarrow> byte option" where
  "scan_bits responses i b =
     (if b < 8 then
        (if i = 0 \<and> b = 0 then scan_bits responses i (b + 1)
         else if bitRead (responses ! i) b = 0 then Some (of_nat (i * 16 + b))
         else scan_bits responses i (b + 1))
      else None)"
  by pat_completeness auto
termination
  by (relation "measure (\<lambda>(responses, i, b). 8 - b)") auto

text \<open>The outer loop \<open>for (byte i = 0; i < 16; i++)\<close>, from \<open>i\<close> on.\<close>

function scan_bytes :: "byte list \<Rightarrow> nat \<Rightarrow> byte option" where
  "scan_bytes responses i =
     (if i < 16 then
        (if responses ! i = 0xff then scan_bytes responses (i + 1)
         else (case scan_bits responses i 0 of
                 Some selected_id \<Rightarrow> Some selected_id
               | None \<Rightarrow> scan_bytes responses (i + 1)))
      else None)"
  by pat_completeness auto
termination
  by (relation "measure (\<lambda>(responses, i). 16 - i)") auto

definition checkCANenum :: "ulong \<Rightarrow> 'st CBUSbase \<Rightarrow> 'st CBUSbase" where
  "checkCANenum now s =
     (let selected_id0 = 1
      in if bCANenum s \<and> now - CANenumTime s \<ge> 100 then
           (let selected_id = (case scan_bytes (enum_responses s) 0 of
                                 Some found \<Rightarrow> found | None \<Rightarrow> selected_id0);
                s1 = s\<lparr>bCANenum := False\<rparr>;
                s2 = s1\<lparr>CANenumTime := 0\<rparr>
            in s2\<lparr>module_config := setCANID (module_config s2) selected_id\<rparr>)
         else s)"



section \<open>Concrete collaborators for the worked examples\<close>

text \<open>
  A table of operation codes for the worked examples: the values of the published CBUS
  protocol. The theorems hold for every injective table; this one instantiates them.
\<close>

fun example_defs :: cbusdefs where
  "example_defs OPC_ACON = 0x90"
| "example_defs OPC_ACON1 = 0xB0"
| "example_defs OPC_ACON2 = 0xD0"
| "example_defs OPC_ACON3 = 0xF0"
| "example_defs OPC_ACOF = 0x91"
| "example_defs OPC_ACOF1 = 0xB1"
| "example_defs OPC_ACOF2 = 0xD1"
| "example_defs OPC_ACOF3 = 0xF1"
| "example_defs OPC_ARON = 0x93"
| "example_defs OPC_AROF = 0x94"
| "example_defs OPC_ASON = 0x98"
| "example_defs OPC_ASON1 = 0xB8"
| "example_defs OPC_ASON2 = 0xD8"
| "example_defs OPC_ASON3 = 0xF8"
| "example_defs OPC_ASOF = 0x99"
| "example_defs OPC_ASOF1 = 0xB9"
| "example_defs OPC_ASOF2 = 0xD9"
| "example_defs OPC_ASOF3 = 0xF9"
| "example_defs OPC_RQNP = 0x10"
| "example_defs OPC_RQNPN = 0x73"
| "example_defs OPC_SNN = 0x42"
| "example_defs OPC_RQNN = 0x50"
| "example_defs OPC_CANID = 0x75"
| "example_defs OPC_ENUM = 0x5D"
| "example_defs OPC_NVRD = 0x71"
| "example_defs OPC_NVSET = 0x96"
| "example_defs OPC_NNLRN = 0x53"
| "example_defs OPC_EVULN = 0x95"
| "example_defs OPC_NNULN = 0x54"
| "example_defs OPC_RQEVN = 0x58"
| "example_defs OPC_NERD = 0x57"
| "example_defs OPC_REVAL = 0x9C"
| "example_defs OPC_NNCLR = 0x55"
| "example_defs OPC_NNEVN = 0x56"
| "example_defs OPC_QNN = 0x0D"
| "example_defs OPC_RQMN = 0x11"
| "example_defs OPC_EVLRN = 0xD2"
| "example_defs OPC_BOOT = 0x5C"
| "example_defs OPC_RSTAT = 0x0C"
| "example_defs OPC_DTXC = 0xE9"
| "example_defs OPC_WRACK = 0x59"
| "example_defs OPC_CMDERR = 0x6F"
| "example_defs OPC_PARAMS = 0xEF"
| "example_defs OPC_PARAN = 0x9B"
| "example_defs OPC_NNACK = 0x52"
| "example_defs OPC_NNREL = 0x51"
| "example_defs OPC_NVANS = 0x97"
| "example_defs OPC_NUMEV = 0x74"
| "example_defs OPC_ENRSP = 0xF2"
| "example_defs OPC_NEVAL = 0xB5"
| "example_defs OPC_EVNLF = 0x70"
| "example_defs OPC_PNN = 0xB6"
| "example_defs OPC_NAME = 0xE2"

text \<open>
  Modelled from the spec: a configuration store for the worked examples; the class
  \<open>CBUSConfig\<close> is not among the sources. It follows the spec's data model and
  interface of the store: an event table of \<open>EE_MAX_EVENTS\<close> entries, each a node
  number, an event number and event variables; a hash table with one byte for each
  entry, zero for an empty one, which \<open>update_event_hash\<close> rebuilds from the entry;
  \<open>find_existing\<close> returns an index below \<open>EE_MAX_EVENTS\<close> iff a matching entry
  exists; \<open>find_empty_slot\<close> returns the first empty entry; \<open>get_event_ev\<close> and
  \<open>write_event_ev\<close>, \<open>read_nv\<close> and \<open>write_nv\<close> read and write one byte.
  An index that finds nothing is the number of entries.
\<close>

record sim_store =
  sim_table :: "(uint \<times> uint) option list"
  sim_hash :: "byte list"
  sim_evs :: "byte list list"
  sim_nvs :: "byte list"

definition first_index :: "(nat \<Rightarrow> bool) \<Rightarrow> nat \<Rightarrow> byte" where
  "first_index P n = (case find P [0 ..< n] of Some i \<Rightarrow> of_nat i | None \<Rightarrow> of_nat n)"

definition sim_findExistingEvent :: "sim_store \<Rightarrow> uint \<Rightarrow> uint \<Rightarrow> byte" where
  "sim_findExistingEvent st nn en =
     first_index (\<lambda>i. sim_hash st ! i \<noteq> 0 \<and> sim_table st ! i = Some (nn, en)) (length (sim_table st))"

definition sim_findEventSpace :: "sim_store \<Rightarrow> byte" where
  "sim_findEventSpace st = first_index (\<lambda>i. sim_hash st ! i = 0) (length (sim_table st))"

definition sim_writeEvent :: "sim_store \<Rightarrow> byte \<Rightarrow> byte list \<Rightarrow> sim_store" where
  "sim_writeEvent st i src =
     st\<lparr>sim_table := (sim_table st)[unat i :=
           Some (push_bit 8 (ucast (src ! 0)) + ucast (src ! 1),
                 push_bit 8 (ucast (src ! 2)) + ucast (src ! 3))]\<rparr>"

definition sim_updateEvHashEntry :: "sim_store \<Rightarrow> byte \<Rightarrow> sim_store" where
  "sim_updateEvHashEntry st i =
     st\<lparr>sim_hash := (sim_hash st)[unat i := (if sim_table st ! unat i = None then 0 else 1)]\<rparr>"

definition sim_writeEventEV :: "sim_store \<Rightarrow> byte \<Rightarrow> byte \<Rightarrow> byte \<Rightarrow> sim_store" where
  "sim_writeEventEV st i k v =
     st\<lparr>sim_evs := (sim_evs st)[unat i := (sim_evs st ! unat i)[unat k := v]]\<rparr>"

definition sim_getEventEVval :: "sim_store \<Rightarrow> byte \<Rightarrow> byte \<Rightarrow> byte" where
  "sim_getEventEVval st i k =
     (if unat i < length (sim_evs st) \<and> unat k < length (sim_evs st ! unat i)
      then sim_evs st ! unat i ! unat k else 0)"

definition sim_getEvTableEntry :: "sim_store \<Rightarrow> byte \<Rightarrow> byte" where
  "sim_getEvTableEntry st i = (if unat i < length (sim_hash st) then sim_hash st ! unat i else 0)"

definition sim_cleareventEEPROM :: "sim_store \<Rightarrow> byte \<Rightarrow> sim_store" where
  "sim_cleareventEEPROM st i = st\<lparr>sim_table := (sim_table st)[unat i := None]\<rparr>"

definition sim_clearEvHashTable :: "sim_store \<Rightarrow> sim_store" where
  "sim_clearEvHashTable st = st\<lparr>sim_hash := replicate (length (sim_hash st)) 0\<rparr>"

definition sim_readNV :: "sim_store \<Rightarrow> byte \<Rightarrow> byte" where
  "sim_readNV st i = (if unat i < length (sim_nvs st) then sim_nvs st ! unat i else 0)"

definition sim_writeNV :: "sim_store \<Rightarrow> byte \<Rightarrow> byte \<Rightarrow> sim_store" where
  "sim_writeNV st i v = st\<lparr>sim_nvs := (sim_nvs st)[unat i := v]\<rparr>"

definition sim_numEvents :: "sim_store \<Rightarrow> byte" where
  "sim_numEvents st = of_nat (length (filter (\<lambda>h. h \<noteq> 0) (sim_hash st)))"

definition sim_readEvent :: "sim_store \<Rightarrow> byte \<Rightarrow> byte list" where
  "sim_readEvent st i =
     (case (if unat i < length (sim_table st) then sim_table st ! unat i else None) of
        Some (nn, en) \<Rightarrow> [highByte nn, lowByte nn, highByte en, lowByte en]
      | None \<Rightarrow> [0, 0, 0, 0])"

definition sim_methods :: "sim_store CBUSConfig_methods" where
  "sim_methods =
     \<lparr> findExistingEvent = sim_findExistingEvent, findEventSpace = sim_findEventSpace,
       writeEvent = sim_writeEvent, updateEvHashEntry = sim_updateEvHashEntry,
       writeEventEV = sim_writeEventEV, getEventEVval = sim_getEventEVval,
       getEvTableEntry = sim_getEvTableEntry, cleareventEEPROM = sim_cleareventEEPROM,
       clearEvHashTable = sim_clearEvHashTable, readNV = sim_readNV, writeNV = sim_writeNV,
       numEvents = sim_numEvents, readEvent = sim_readEvent \<rparr>"

text \<open>
  A node for the worked examples: node number 260, CAN identifier 5, four event slots
  with two event variables each, all empty, a parameter array of nine entries headed by
  the count 8, LEDs fitted.
\<close>

definition example_store :: sim_store where
  "example_store =
     \<lparr> sim_table = [None, None, None, None], sim_hash = [0, 0, 0, 0],
       sim_evs = [[0, 0, 0], [0, 0, 0], [0, 0, 0], [0, 0, 0]], sim_nvs = [0, 0, 0, 0, 0] \<rparr>"

definition example_config :: "sim_store CBUSConfig" where
  "example_config =
     \<lparr> nodeNum = 260, CANID = 5, FLiM = True, EE_MAX_EVENTS = 4, EE_NUM_NVS = 4,
       EE_NUM_EVS = 2, storage = example_store \<rparr>"

definition empty_frame :: CANFrame where
  "empty_frame = \<lparr>id_f = 0, ext = False, rtr = False, len = 0, data = [0, 0, 0, 0, 0, 0, 0, 0]\<rparr>"

definition example_node :: "sim_store CBUSbase" where
  "example_node =
     \<lparr> m_msg = empty_frame, m_ledGrn = [], m_ledYlw = [], module_config = example_config,
       m_mparams = [8, 165, 1, 99, 4, 2, 4, 1, 0], m_mname = [0x54, 0x45, 0x53, 0x54, 0x20, 0x20, 0x20],
       eventhandler = False, eventhandlerex = False, longMessageHandler = False,
       enum_responses = replicate 16 0, bModeChanging = False, bCANenum = False,
       bLearn = False, timeOutTimer = 0, CANenumTime = 0, enumeration_required = False,
       UI = True, sent = [], handler_calls = [], long_fragments = [] \<rparr>"

text \<open>
  A standard data frame of \<open>n\<close> bytes from the peer with CAN identifier \<open>canid\<close>;
  \<open>payload\<close> is the whole array \<open>data[8]\<close>.
\<close>

definition data_frame :: "byte \<Rightarrow> byte \<Rightarrow> byte list \<Rightarrow> CANFrame" where
  "data_frame canid n payload =
     \<lparr> id_f = push_bit 7 0xB + ucast canid, ext = False, rtr = False, len = n, data = payload \<rparr>"

text \<open>All the operation codes, for the proof that a table is injective.\<close>

definition all_opcodes :: "opcode list" where
  "all_opcodes = [OPC_ACON, OPC_ACON1, OPC_ACON2, OPC_ACON3, OPC_ACOF, OPC_ACOF1, OPC_ACOF2,
     OPC_ACOF3, OPC_ARON, OPC_AROF, OPC_ASON, OPC_ASON1, OPC_ASON2, OPC_ASON3, OPC_ASOF,
     OPC_ASOF1, OPC_ASOF2, OPC_ASOF3, OPC_RQNP, OPC_RQNPN, OPC_SNN, OPC_RQNN, OPC_CANID,
     OPC_ENUM, OPC_NVRD, OPC_NVSET, OPC_NNLRN, OPC_EVULN, OPC_NNULN, OPC_RQEVN, OPC_NERD,
     OPC_REVAL, OPC_NNCLR, OPC_NNEVN, OPC_QNN, OPC_RQMN, OPC_EVLRN, OPC_BOOT, OPC_RSTAT,
     OPC_DTXC, OPC_WRACK, OPC_CMDERR, OPC_PARAMS, OPC_PARAN, OPC_NNACK, OPC_NNREL, OPC_NVANS,
     OPC_NUMEV, OPC_ENRSP, OPC_NEVAL, OPC_EVNLF, OPC_PNN, OPC_NAME]"


text \<open>
  The index the \<open>OPC_EVLRN\<close> case computes for a received frame \<open>f\<close>: that of
  \<open>findExistingEvent\<close>, replaced by that of \<open>findEventSpace\<close> when it is not below
  \<open>EE_MAX_EVENTS\<close>.
\<close>

definition evlrn_index :: "'st CBUSConfig_methods \<Rightarrow> 'st CBUSbase \<Rightarrow> CANFrame \<Rightarrow> byte" where
  "evlrn_index cm s f =
     (let st = storage (module_config s);
          nn = word_of_bytes (data f ! 1) (data f ! 2);
          en = word_of_bytes (data f ! 3) (data f ! 4);
          found = findExistingEvent cm st nn en
      in if found \<ge> EE_MAX_EVENTS (module_config s) then findEventSpace cm st else found)"

text \<open>
  The example node in learn mode; the same with an event table that has no free slot;
  and a node in transition to FLiM, with no node number and no CAN identifier yet.
\<close>

definition learning_node :: "sim_store CBUSbase" where
  "learning_node = example_node\<lparr>bLearn := True\<rparr>"

definition full_store :: sim_store where
  "full_store =
     \<lparr> sim_table = [Some (1, 1), Some (1, 2), Some (1, 3), Some (1, 4)], sim_hash = [1, 1, 1, 1],
       sim_evs = [[0, 0, 0], [0, 0, 0], [0, 0, 0], [0, 0, 0]], sim_nvs = [0, 0, 0, 0, 0] \<rparr>"

definition full_node :: "sim_store CBUSbase" where
  "full_node = learning_node\<lparr>module_config := example_config\<lparr>storage := full_store\<rparr>\<rparr>"

definition changing_node :: "sim_store CBUSbase" where
  "changing_node = example_node\<lparr>bModeChanging := True,
      module_config := example_config\<lparr>nodeNum := 0, CANID := 0, FLiM := False\<rparr>\<rparr>"


section \<open>Runs of the dispatcher\<close>

text \<open>
  Frames received one after the other, each with the time \<open>millis()\<close> shows while it
  is processed.
\<close>

definition receive_all ::
  "cbusdefs \<Rightarrow> 'st CBUSConfig_methods \<Rightarrow> 'st CBUSbase \<Rightarrow> (ulong \<times> CANFrame) list \<Rightarrow> 'st CBUSbase" where
  "receive_all defs cm s tfs = foldl (\<lambda>s' tf. receive defs cm (fst tf) s' (snd tf)) s tfs"

text \<open>The members that make up the state of an enumeration cycle.\<close>

definition enum_state :: "'st CBUSbase \<Rightarrow> bool \<times> byte list \<times> ulong" where
  "enum_state s = (bCANenum s, enum_responses s, CANenumTime s)"



text \<open>A zero-length standard frame from the peer with CAN identifier \<open>canid\<close>.\<close>

definition response_frame :: "byte \<Rightarrow> CANFrame" where
  "response_frame canid =
     \<lparr> id_f = push_bit 7 0xB + ucast canid, ext = False, rtr = False, len = 0,
       data = [0, 0, 0, 0, 0, 0, 0, 0] \<rparr>"




text \<open>
  An enumeration on the example node for the worked examples: the cycle starts at time
  0, the peers with the identifiers \<open>ps\<close> answer at time 50, and \<open>checkCANenum\<close>
  runs at time 100.
\<close>

definition responses :: "byte list \<Rightarrow> (ulong \<times> CANFrame) list" where
  "responses ps = map (\<lambda>p. (50, response_frame p)) ps"

definition enumerate_with :: "byte list \<Rightarrow> sim_store CBUSbase" where
  "enumerate_with ps =
     checkCANenum 100 (receive_all example_defs sim_methods (CANenumeration 0 example_node) (responses ps))"


section \<open>Properties of the circular buffer\<close>

lemma unat_next_index: "0 < c \<Longrightarrow> unat (next_index x c) = (unat x + 1) mod unat c"
proof -
  assume "0 < c"
  then have "(unat x + 1) mod unat c < unat c"
    by (simp add: unat_gt_0)
  moreover have "unat c < 2 ^ 8"
    using unsigned_less [of c] by simp
  ultimately show ?thesis
    by (simp add: next_index_def unat_of_nat)
qed

lemma next_index_lt: "0 < c \<Longrightarrow> next_index x c < c"
  by (simp add: word_less_nat_alt unat_next_index unat_gt_0)

lemma byte_diff_val:
  fixes c h t :: byte
  assumes "h < c" "t < c"
  shows "unat (if h \<ge> t then h - t else c + h - t) = (unat c + unat h - unat t) mod unat c"
proof (cases "h \<ge> t")
  case True
  then have "unat (h - t) = unat h - unat t"
    by (simp add: unat_sub)
  moreover have "unat h - unat t < unat c" "unat t \<le> unat h"
    using assms True by (simp_all add: word_less_nat_alt word_le_nat_alt)
  ultimately show ?thesis using True
    by (simp add: mod_if)
next
  case False
  have c: "unat c < 2 ^ 8" using unsigned_less [of c] by simp
  from False assms have lt: "unat h < unat t" "unat t < unat c" "unat h < unat c"
    by (simp_all add: word_less_nat_alt word_le_nat_alt)
  have "c + h - t = of_nat (unat c + unat h - unat t)"
    using lt by (simp add: of_nat_diff)
  moreover have "unat c + unat h - unat t < unat c" using lt by simp
  ultimately have "unat (c + h - t) = unat c + unat h - unat t"
    using c by (simp add: unat_of_nat)
  then show ?thesis using False lt by simp
qed

lemma size_cb_val:
  assumes "m_head cb < m_capacity cb" "m_tail cb < m_capacity cb"
  shows "unat (fst (size_cb cb)) = (if m_full cb then unat (m_capacity cb) else
        (unat (m_capacity cb) + unat (m_head cb) - unat (m_tail cb)) mod unat (m_capacity cb))"
  using byte_diff_val [OF assms] by (simp add: size_cb_def Let_def)

lemma size_cb_fields:
  "snd (size_cb cb) = cb\<lparr>m_size := fst (size_cb cb)\<rparr>"
  by (simp add: size_cb_def Let_def)

lemma ring_put:
  fixes c h t :: nat
  assumes "h < c" "t < c" "(h + 1) mod c \<noteq> t"
  shows "(c + (h + 1) mod c - t) mod c = (c + h - t) mod c + 1"
  using assms
  apply (cases "h + 1 = c")
   apply (auto simp: mod_if)
  done

lemma ring_put_full:
  fixes c h t :: nat
  assumes "h < c" "t < c" "(h + 1) mod c = t"
  shows "(c + h - t) mod c + 1 = c"
  using assms
  apply (cases "h + 1 = c")
   apply (auto simp: mod_if)
  done

lemma ring_get:
  fixes c h t :: nat
  assumes "h < c" "t < c" "h \<noteq> t"
  shows "(c + h - (t + 1) mod c) mod c + 1 = (c + h - t) mod c"
  using assms
  apply (cases "t + 1 = c")
   apply (auto simp: mod_if)
  done

lemma ring_get_full:
  fixes c t :: nat
  assumes "t < c"
  shows "(c + t - (t + 1) mod c) mod c + 1 = c"
  using assms
  apply (cases "t + 1 = c")
   apply (auto simp: mod_if)
  done

lemma ucast_byte_Suc:
  fixes x :: byte
  assumes "unat y = unat x + 1"
  shows "(ucast y :: 'w::len word) = ucast x + 1"
proof -
  have "(ucast y :: 'w word) = of_nat (unat y)" by simp
  also have "\<dots> = of_nat (unat x) + 1" by (simp only: assms of_nat_add of_nat_1)
  also have "\<dots> = ucast x + 1" by simp
  finally show ?thesis .
qed

lemma put_fields:
  "m_capacity (put cb f t) = m_capacity cb"
  "m_head (put cb f t) = next_index (m_head cb) (m_capacity cb)"
  "m_tail (put cb f t) = (if m_full cb then next_index (m_tail cb) (m_capacity cb) else m_tail cb)"
  "m_full (put cb f t) = (m_head (put cb f t) = m_tail (put cb f t))"
  "m_puts (put cb f t) = m_puts cb + 1"
  "m_gets (put cb f t) = m_gets cb"
  "m_overflows (put cb f t) = (if m_full cb then m_overflows cb + 1 else m_overflows cb)"
  "m_buffer (put cb f t) = (m_buffer cb)[unat (m_head cb) := Some \<lparr>item_insert_time = t, item = f\<rparr>]"
  by (simp_all add: put_def Let_def size_cb_fields)

lemma put_hwm: "m_hwm (put cb f t) = max (m_hwm cb) (m_size (put cb f t))"
  by (simp add: put_def Let_def size_cb_fields max_def not_less) auto

lemma put_size:
  assumes "0 < m_capacity cb" "m_head cb < m_capacity cb" "m_tail cb < m_capacity cb" 
  shows "unat (m_size (put cb f t)) =
     (if m_head (put cb f t) = m_tail (put cb f t) then unat (m_capacity cb)
      else (unat (m_capacity cb) + unat (m_head (put cb f t)) - unat (m_tail (put cb f t))) mod unat (m_capacity cb))"
proof -
  let ?cb4 = "cb\<lparr>m_buffer := (m_buffer cb)[unat (m_head cb) := Some \<lparr>item_insert_time = t, item = f\<rparr>],
      m_tail := m_tail (put cb f t), m_overflows := m_overflows (put cb f t),
      m_head := m_head (put cb f t), m_full := m_full (put cb f t)\<rparr>"
  have "m_size (put cb f t) = fst (size_cb ?cb4)"
    by (simp add: put_def Let_def size_cb_fields)
  moreover have "m_head ?cb4 < m_capacity ?cb4" "m_tail ?cb4 < m_capacity ?cb4"
    using assms by (simp_all add: put_fields next_index_lt)
  ultimately show ?thesis
    using size_cb_val [of ?cb4] by (simp add: put_fields)
qed


lemma put_inv: "cb_inv cb \<Longrightarrow> cb_inv (put cb f t)"
proof -
  assume inv: "cb_inv cb"
  then have c: "0 < m_capacity cb" and h: "m_head cb < m_capacity cb" and t: "m_tail cb < m_capacity cb"
    by (simp_all add: cb_inv_def)
  note sz = put_size [OF c h t, of f t]
  have un: "unat (m_head cb) < unat (m_capacity cb)" "unat (m_tail cb) < unat (m_capacity cb)"
    using h t by (simp_all add: word_less_nat_alt)
  show ?thesis
  proof (cases "m_full cb")
    case True
    with inv have ht: "m_head cb = m_tail cb" and s: "unat (m_size cb) = unat (m_capacity cb)"
      by (simp_all add: cb_inv_def)
    from sz True ht have "unat (m_size (put cb f t)) = unat (m_capacity cb)"
      by (simp add: put_fields)
    then have eq: "m_size (put cb f t) = m_size cb"
      using s by (simp add: word_unat_eq_iff)
    show ?thesis using inv True ht eq c
      by (simp add: cb_inv_def put_fields put_hwm next_index_lt)
  next
    case False
    with inv have s: "unat (m_size cb) =
        (unat (m_capacity cb) + unat (m_head cb) - unat (m_tail cb)) mod unat (m_capacity cb)"
      by (simp add: cb_inv_def)
    have nh: "unat (m_head (put cb f t)) = (unat (m_head cb) + 1) mod unat (m_capacity cb)"
      by (simp add: put_fields unat_next_index [OF c])
    have step: "unat (m_size (put cb f t)) = unat (m_size cb) + 1"
    proof (cases "m_head (put cb f t) = m_tail (put cb f t)")
      case True
      then have "(unat (m_head cb) + 1) mod unat (m_capacity cb) = unat (m_tail cb)"
        using nh False by (simp add: put_fields)
      from ring_put_full [OF un this] sz True s show ?thesis by simp
    next
      case ne: False
      then have "(unat (m_head cb) + 1) mod unat (m_capacity cb) \<noteq> unat (m_tail cb)"
        using nh False by (simp add: put_fields word_unat_eq_iff)
      from ring_put [OF un this] sz ne s nh False show ?thesis by (simp add: put_fields)
    qed
    have cnt: "m_puts (put cb f t) = m_gets (put cb f t) + ucast (m_size (put cb f t)) + m_overflows (put cb f t)"
      using inv False by (simp add: cb_inv_def put_fields ucast_byte_Suc [OF step])
    show ?thesis using inv False c sz cnt
      by (simp add: cb_inv_def put_fields put_hwm next_index_lt)
  qed
qed


lemma get_fields:
  "m_size cb > 0 \<Longrightarrow> m_capacity (snd (get cb)) = m_capacity cb"
  "m_size cb > 0 \<Longrightarrow> m_head (snd (get cb)) = m_head cb"
  "m_size cb > 0 \<Longrightarrow> m_tail (snd (get cb)) = next_index (m_tail cb) (m_capacity cb)"
  "m_size cb > 0 \<Longrightarrow> m_full (snd (get cb)) = False"
  "m_size cb > 0 \<Longrightarrow> m_puts (snd (get cb)) = m_puts cb"
  "m_size cb > 0 \<Longrightarrow> m_gets (snd (get cb)) = m_gets cb + 1"
  "m_size cb > 0 \<Longrightarrow> m_overflows (snd (get cb)) = m_overflows cb"
  "m_size cb > 0 \<Longrightarrow> m_buffer (snd (get cb)) = m_buffer cb"
  "m_size cb > 0 \<Longrightarrow> m_hwm (snd (get cb)) = m_hwm cb"
  "m_size cb > 0 \<Longrightarrow> fst (get cb) = Some (unat (m_tail cb))"
  by (simp_all add: get_def Let_def size_cb_fields)

lemma get_empty: "\<not> m_size cb > 0 \<Longrightarrow> get cb = (None, cb)"
  by (simp add: get_def)

lemma get_size:
  assumes "0 < m_size cb" "0 < m_capacity cb" "m_head cb < m_capacity cb" "m_tail cb < m_capacity cb"
  shows "unat (m_size (snd (get cb))) =
     (unat (m_capacity cb) + unat (m_head cb) - unat (next_index (m_tail cb) (m_capacity cb))) mod unat (m_capacity cb)"
proof -
  let ?cb2 = "cb\<lparr>m_full := False, m_tail := next_index (m_tail cb) (m_capacity cb)\<rparr>"
  have "m_size (snd (get cb)) = fst (size_cb ?cb2)"
    using assms(1) by (simp add: get_def Let_def size_cb_fields)
  moreover have "m_head ?cb2 < m_capacity ?cb2" "m_tail ?cb2 < m_capacity ?cb2"
    using assms by (simp_all add: next_index_lt)
  ultimately show ?thesis
    using size_cb_val [of ?cb2] by simp
qed

lemma get_inv: "cb_inv cb \<Longrightarrow> cb_inv (snd (get cb))"
proof (cases "m_size cb > 0")
  case False
  assume "cb_inv cb"
  then show ?thesis using False by (simp add: get_empty)
next
  case pos: True
  assume inv: "cb_inv cb"
  then have c: "0 < m_capacity cb" and h: "m_head cb < m_capacity cb" and t: "m_tail cb < m_capacity cb"
    by (simp_all add: cb_inv_def)
  note sz = get_size [OF pos c h t]
  have un: "unat (m_head cb) < unat (m_capacity cb)" "unat (m_tail cb) < unat (m_capacity cb)"
    using h t by (simp_all add: word_less_nat_alt)
  have nt: "unat (next_index (m_tail cb) (m_capacity cb)) = (unat (m_tail cb) + 1) mod unat (m_capacity cb)"
    by (rule unat_next_index [OF c])
  have step: "unat (m_size cb) = unat (m_size (snd (get cb))) + 1"
  proof (cases "m_full cb")
    case True
    with inv have ht: "m_head cb = m_tail cb" and s: "unat (m_size cb) = unat (m_capacity cb)"
      by (simp_all add: cb_inv_def)
    from ring_get_full [OF un(2)] sz nt ht s show ?thesis by simp
  next
    case False
    with inv have s: "unat (m_size cb) =
        (unat (m_capacity cb) + unat (m_head cb) - unat (m_tail cb)) mod unat (m_capacity cb)"
      by (simp add: cb_inv_def)
    have "unat (m_size cb) \<noteq> 0" using pos by (simp add: unat_gt_0 word_greater_zero_iff)
    with s have "unat (m_head cb) \<noteq> unat (m_tail cb)" by auto
    from ring_get [OF un this] sz nt s show ?thesis by simp
  qed
  have cnt: "m_puts (snd (get cb)) = m_gets (snd (get cb)) + ucast (m_size (snd (get cb))) + m_overflows (snd (get cb))"
    using inv pos by (simp add: cb_inv_def get_fields ucast_byte_Suc [OF step])
  have le: "m_size (snd (get cb)) \<le> m_hwm cb"
  proof -
    have "m_size (snd (get cb)) \<le> m_size cb" using step by (simp add: word_le_nat_alt)
    also have "\<dots> \<le> m_hwm cb" using inv by (simp add: cb_inv_def)
    finally show ?thesis .
  qed
  show ?thesis using inv pos c sz cnt le nt
    by (simp add: cb_inv_def get_fields next_index_lt)
qed

lemma cb_step_inv: "cb_inv cb \<Longrightarrow> cb_inv (cb_step cb x)"
  by (cases x) (simp_all add: put_inv get_inv)

lemma cb_run_inv: "cb_inv cb \<Longrightarrow> cb_inv (cb_run cb ops)"
  unfolding cb_run_def by (induction ops arbitrary: cb) (simp_all add: cb_step_inv)

lemma cb_run_snoc: "cb_run cb (ops @ [x]) = cb_step (cb_run cb ops) x"
  by (simp add: cb_run_def)

lemma new_inv: "0 < n \<Longrightarrow> cb_inv (circular_buffer2 n)"
  by (simp add: cb_inv_def circular_buffer2_def unat_gt_0)

lemma cb_step_hwm:
  assumes "cb_inv cb"
  shows "m_hwm (cb_step cb x) = max (m_hwm cb) (m_size (cb_step cb x))"
proof (cases x)
  case (Put f t)
  then show ?thesis by (simp add: put_hwm)
next
  case Get
  from get_inv [OF assms] have "m_size (snd (get cb)) \<le> m_hwm (snd (get cb))"
    by (simp add: cb_inv_def)
  moreover have "m_hwm (snd (get cb)) = m_hwm cb"
    by (cases "m_size cb > 0") (simp_all add: get_fields get_empty)
  ultimately show ?thesis using Get by (simp add: max_def)
qed

lemma size_history_snoc:
  "size_history cb (ops @ [x]) = size_history cb ops @ [m_size (cb_run cb (ops @ [x]))]"
  by (simp add: size_history_def)

lemma size_history_hwm:
  assumes "cb_inv cb"
  shows "m_hwm (cb_run cb ops) = Max (set (m_hwm cb # size_history cb ops))"
proof (induction ops rule: rev_induct)
  case Nil
  have "m_size cb \<le> m_hwm cb" using assms by (simp add: cb_inv_def)
  then show ?case by (simp add: size_history_def cb_run_def max_def)
next
  case (snoc x ops)
  have "m_hwm (cb_run cb (ops @ [x])) = max (m_hwm (cb_run cb ops)) (m_size (cb_run cb (ops @ [x])))"
    using cb_step_hwm [OF cb_run_inv [OF assms]] by (simp add: cb_run_snoc)
  also have "\<dots> = Max (set (m_hwm cb # size_history cb (ops @ [x])))"
  proof -
    have ne: "set (size_history cb ops) \<noteq> {}" by (simp add: size_history_def)
    show ?thesis
      unfolding snoc.IH size_history_snoc using ne
      by (simp add: max.commute max.left_commute max.assoc)
  qed
  finally show ?case .
qed

lemma size_history_new:
  "Max (set (m_hwm (circular_buffer2 n :: ('w::len) circular_buffer2) # size_history (circular_buffer2 n :: 'w circular_buffer2) ops))
     = Max (set (size_history (circular_buffer2 n :: 'w circular_buffer2) ops))"
proof -
  have "size_history (circular_buffer2 n :: 'w circular_buffer2) ops
      = 0 # map (\<lambda>k. m_size (cb_run (circular_buffer2 n :: 'w circular_buffer2) (take k ops))) [1 ..< Suc (length ops)]"
    by (simp add: size_history_def upt_conv_Cons [of 0] cb_run_def circular_buffer2_def del: upt_Suc)
  then show ?thesis by (simp add: circular_buffer2_def)
qed


lemma cb_step_capacity: "m_capacity (cb_step cb x) = m_capacity cb"
  by (cases x; cases "m_size cb > 0") (simp_all add: put_fields get_fields get_empty)

lemma cb_run_capacity: "m_capacity (cb_run cb ops) = m_capacity cb"
  unfolding cb_run_def by (induction ops arbitrary: cb) (simp_all add: cb_step_capacity)

lemma cb_inv_full_iff:
  assumes "cb_inv cb"
  shows "m_full cb \<longleftrightarrow> m_size cb = m_capacity cb"
proof
  assume "m_full cb"
  with assms show "m_size cb = m_capacity cb"
    by (simp add: cb_inv_def word_unat_eq_iff)
next
  assume eq: "m_size cb = m_capacity cb"
  show "m_full cb"
  proof (rule ccontr)
    assume "\<not> m_full cb"
    with assms have "unat (m_size cb) =
        (unat (m_capacity cb) + unat (m_head cb) - unat (m_tail cb)) mod unat (m_capacity cb)"
      and "0 < unat (m_capacity cb)"
      by (simp_all add: cb_inv_def word_less_nat_alt)
    then have "unat (m_size cb) < unat (m_capacity cb)"
      by simp
    with eq show False by simp
  qed
qed

lemma cb_inv_size_le: "cb_inv cb \<Longrightarrow> m_size cb \<le> m_capacity cb"
  by (auto simp: cb_inv_def word_le_nat_alt unat_gt_0 intro: less_imp_le)

lemma put_full_effect:
  assumes "cb_inv cb" "m_full cb"
  shows "m_buffer (put cb f t) = (m_buffer cb)[unat (m_tail cb) := Some \<lparr>item_insert_time = t, item = f\<rparr>]
     \<and> unat (m_tail cb) < length (m_buffer cb)
     \<and> fst (get cb) = Some (unat (m_tail cb))
     \<and> unat (m_head (put cb f t)) = (unat (m_head cb) + 1) mod unat (m_capacity cb)
     \<and> unat (m_tail (put cb f t)) = (unat (m_tail cb) + 1) mod unat (m_capacity cb)
     \<and> m_overflows (put cb f t) = m_overflows cb + 1
     \<and> m_full (put cb f t)"
proof -
  from assms have ht: "m_head cb = m_tail cb" and c: "0 < m_capacity cb"
    and t: "m_tail cb < m_capacity cb" and l: "length (m_buffer cb) = unat (m_capacity cb)"
    and s: "m_size cb = m_capacity cb"
    by (simp_all add: cb_inv_def word_unat_eq_iff)
  from s c have pos: "m_size cb > 0" by simp
  show ?thesis using assms(2) ht t l
    by (simp add: put_fields get_fields [OF pos] unat_next_index [OF c] word_less_nat_alt)
qed


text \<open>
  Claim C6. Take a buffer constructed with capacity \<open>n \<ge> 1\<close> and run any sequence of
  \<open>put\<close> and \<open>get\<close> calls on it. In the state reached (hence after each call of the
  sequence): \<open>puts = gets + size + overflows\<close>, in the program's \<open>unsigned int\<close>
  arithmetic of any width; \<open>size \<le> capacity\<close>; the buffer is full exactly when
  \<open>size = capacity\<close>; and \<open>hwm\<close> is the maximum of the values \<open>size\<close> has taken
  since construction. If the buffer is full, one more \<open>put\<close> writes the new item into
  the slot at \<open>_tail\<close>, which is the slot \<open>get\<close> would have returned (the oldest
  item), moves \<open>_head\<close> and \<open>_tail\<close> one step modulo the capacity, adds one to the
  overflow counter and leaves the buffer full.
\<close>

theorem circular_buffer2_put_get_invariant:
  fixes n :: byte and ops :: "cb_op list" and f :: CANFrame and t :: ulong
  assumes "1 \<le> n"
  shows "m_puts (cb_run (circular_buffer2 n :: ('w::len) circular_buffer2) ops)
       = m_gets (cb_run (circular_buffer2 n :: 'w circular_buffer2) ops)
         + ucast (m_size (cb_run (circular_buffer2 n :: 'w circular_buffer2) ops))
         + m_overflows (cb_run (circular_buffer2 n :: 'w circular_buffer2) ops)
     \<and> m_capacity (cb_run (circular_buffer2 n :: 'w circular_buffer2) ops) = n
     \<and> m_size (cb_run (circular_buffer2 n :: 'w circular_buffer2) ops) \<le> n
     \<and> (m_full (cb_run (circular_buffer2 n :: 'w circular_buffer2) ops)
          \<longleftrightarrow> m_size (cb_run (circular_buffer2 n :: 'w circular_buffer2) ops) = n)
     \<and> m_hwm (cb_run (circular_buffer2 n :: 'w circular_buffer2) ops)
          = Max (set (size_history (circular_buffer2 n :: 'w circular_buffer2) ops))
     \<and> (m_full (cb_run (circular_buffer2 n :: 'w circular_buffer2) ops) \<longrightarrow>
          (let cb = cb_run (circular_buffer2 n :: 'w circular_buffer2) ops; cb' = put cb f t in
             m_buffer cb' = (m_buffer cb)[unat (m_tail cb) := Some \<lparr>item_insert_time = t, item = f\<rparr>]
           \<and> unat (m_tail cb) < length (m_buffer cb)
           \<and> fst (get cb) = Some (unat (m_tail cb))
           \<and> unat (m_head cb') = (unat (m_head cb) + 1) mod unat n
           \<and> unat (m_tail cb') = (unat (m_tail cb) + 1) mod unat n
           \<and> m_overflows cb' = m_overflows cb + 1
           \<and> m_full cb'))"
proof -
  let ?cb = "cb_run (circular_buffer2 n :: 'w circular_buffer2) ops"
  from assms have "0 < n" by (simp add: word_less_nat_alt word_le_nat_alt)
  then have inv: "cb_inv ?cb" by (intro cb_run_inv new_inv)
  have cap: "m_capacity ?cb = n" by (simp add: cb_run_capacity) (simp add: circular_buffer2_def)
  have "m_puts ?cb = m_gets ?cb + ucast (m_size ?cb) + m_overflows ?cb"
    using inv by (simp add: cb_inv_def)
  moreover have "m_size ?cb \<le> n" using cb_inv_size_le [OF inv] cap by simp
  moreover have "m_full ?cb \<longleftrightarrow> m_size ?cb = n" using cb_inv_full_iff [OF inv] cap by simp
  moreover have "m_hwm ?cb = Max (set (size_history (circular_buffer2 n :: 'w circular_buffer2) ops))"
    using size_history_hwm [OF new_inv [OF \<open>0 < n\<close>], of ops, where 'a = 'w]
    by (simp only: size_history_new)
  moreover have "m_full ?cb \<longrightarrow>
          (let cb = ?cb; cb' = put cb f t in
             m_buffer cb' = (m_buffer cb)[unat (m_tail cb) := Some \<lparr>item_insert_time = t, item = f\<rparr>]
           \<and> unat (m_tail cb) < length (m_buffer cb)
           \<and> fst (get cb) = Some (unat (m_tail cb))
           \<and> unat (m_head cb') = (unat (m_head cb) + 1) mod unat n
           \<and> unat (m_tail cb') = (unat (m_tail cb) + 1) mod unat n
           \<and> m_overflows cb' = m_overflows cb + 1
           \<and> m_full cb')"
    using put_full_effect [OF inv, of f t] cap by (simp add: Let_def)
  ultimately show ?thesis using cap by blast
qed



lemma six_puts_run: "cb_run (circular_buffer2 4 :: 16 circular_buffer2) six_puts =
   \<lparr>m_full = True, m_head = 2, m_tail = 2, m_capacity = 4, m_size = 4, m_hwm = 4, m_puts = 6,
    m_gets = 0, m_overflows = 2,
    m_buffer = [Some \<lparr>item_insert_time = 4, item = example_frame\<rparr>, Some \<lparr>item_insert_time = 5, item = example_frame\<rparr>,
                Some \<lparr>item_insert_time = 2, item = example_frame\<rparr>, Some \<lparr>item_insert_time = 3, item = example_frame\<rparr>]\<rparr>"
  by code_simp

text \<open>
  The loopback overflow scenario: capacity 4 and six \<open>put\<close>s leave the buffer full with
  two overflows and a high-water mark of 4; a seventh \<open>put\<close> is the third overflow.
\<close>

theorem circular_buffer2_put_get_invariant_witness:
  "(1::byte) \<le> 4
   \<and> m_full (cb_run (circular_buffer2 4 :: 16 circular_buffer2) six_puts)
   \<and> m_size (cb_run (circular_buffer2 4 :: 16 circular_buffer2) six_puts) = 4
   \<and> m_overflows (cb_run (circular_buffer2 4 :: 16 circular_buffer2) six_puts) = 2
   \<and> m_puts (cb_run (circular_buffer2 4 :: 16 circular_buffer2) six_puts) = 6
   \<and> m_gets (cb_run (circular_buffer2 4 :: 16 circular_buffer2) six_puts) = 0
   \<and> m_hwm (cb_run (circular_buffer2 4 :: 16 circular_buffer2) six_puts) = 4
   \<and> Max (set (size_history (circular_buffer2 4 :: 16 circular_buffer2) six_puts)) = 4
   \<and> m_overflows (put (cb_run (circular_buffer2 4 :: 16 circular_buffer2) six_puts) example_frame 6) = 3
   \<and> m_tail (put (cb_run (circular_buffer2 4 :: 16 circular_buffer2) six_puts) example_frame 6) = 3
   \<and> m_head (put (cb_run (circular_buffer2 4 :: 16 circular_buffer2) six_puts) example_frame 6) = 3"
proof -
  have h: "(1::byte) \<le> 4" by simp
  note r = six_puts_run
  have full: "m_full (cb_run (circular_buffer2 4 :: 16 circular_buffer2) six_puts)"
    by (simp add: r)
  from circular_buffer2_put_get_invariant [OF h, of six_puts example_frame 6, where 'w = 16] full
  show ?thesis
    by (simp add: r Let_def word_unat_eq_iff)
qed


text \<open>
  Claim C10. \<open>clear\<close> sets \<open>_head\<close>, \<open>_tail\<close> and \<open>_size\<close> to zero and the full
  flag to false, and leaves \<open>_puts\<close>, \<open>_gets\<close>, \<open>_overflows\<close> and \<open>_hwm\<close> (and
  the capacity and the slots) as they were. So the counters no longer balance after a
  \<open>clear\<close> of a non-empty buffer: one \<open>put\<close> into a new buffer of capacity 4 followed
  by \<open>clear\<close> leaves \<open>puts = 1\<close> against \<open>gets + size + overflows = 0\<close>.
\<close>

theorem clear_keeps_counters:
  fixes cb :: "('w::len) circular_buffer2"
  shows "m_head (clear cb) = 0 \<and> m_tail (clear cb) = 0 \<and> m_size (clear cb) = 0
     \<and> \<not> m_full (clear cb)
     \<and> m_puts (clear cb) = m_puts cb \<and> m_gets (clear cb) = m_gets cb
     \<and> m_overflows (clear cb) = m_overflows cb \<and> m_hwm (clear cb) = m_hwm cb
     \<and> m_capacity (clear cb) = m_capacity cb \<and> m_buffer (clear cb) = m_buffer cb
     \<and> m_puts (clear (put (circular_buffer2 4 :: 'w circular_buffer2) f t)) = 1
     \<and> m_gets (clear (put (circular_buffer2 4 :: 'w circular_buffer2) f t))
         + ucast (m_size (clear (put (circular_buffer2 4 :: 'w circular_buffer2) f t)))
         + m_overflows (clear (put (circular_buffer2 4 :: 'w circular_buffer2) f t)) = 0
     \<and> m_puts (clear (put (circular_buffer2 4 :: 'w circular_buffer2) f t))
         \<noteq> m_gets (clear (put (circular_buffer2 4 :: 'w circular_buffer2) f t))
         + ucast (m_size (clear (put (circular_buffer2 4 :: 'w circular_buffer2) f t)))
         + m_overflows (clear (put (circular_buffer2 4 :: 'w circular_buffer2) f t))"
proof -
  have "m_puts (put (circular_buffer2 4 :: 'w circular_buffer2) f t) = 1"
    "m_gets (put (circular_buffer2 4 :: 'w circular_buffer2) f t) = 0"
    "m_overflows (put (circular_buffer2 4 :: 'w circular_buffer2) f t) = 0"
    by (simp_all add: put_fields) (simp_all add: circular_buffer2_def)
  then show ?thesis
    by (simp add: clear_def)
qed


section \<open>Properties of the message dispatcher\<close>

subsection \<open>The example table of operation codes is injective\<close>

lemma all_opcodes_UNIV: "x \<in> set all_opcodes"
  by (cases x) (simp_all add: all_opcodes_def)

lemma distinct_example_defs: "distinct (map example_defs all_opcodes)"
  by (simp add: all_opcodes_def)

lemma inj_example_defs: "inj example_defs"
proof -
  have "inj_on example_defs (set all_opcodes)"
    using distinct_example_defs by (simp add: distinct_map)
  moreover have "set all_opcodes = UNIV" using all_opcodes_UNIV by auto
  ultimately show ?thesis by simp
qed

subsection \<open>From a received frame to the case of the switch\<close>

lemmas msg_defs = set_len_def set_data_def get_data_def sendMessage_def makeHeader_def
  makeHeader_impl_def sendWRACK_def sendCMDERR_def

lemma process_data_frame:
  assumes "\<not> ext (m_msg s)" "0 < len (m_msg s)"
  shows "process_single_message defs cm now s =
     opcode_switch defs cm now (get_data s 0) (word_of_bytes (get_data s 1) (get_data s 2))
       (word_of_bytes (get_data s 3) (get_data s 4)) (getCANID (id_f (m_msg s)))
       (flag_clash (pulse_activity s))"
  using assms
  by (auto simp: process_single_message_def Let_def pulse_activity_def flag_clash_def get_data_def)

lemma receive_data_frame:
  assumes "\<not> ext f" "0 < len f"
  shows "receive defs cm now s f =
     opcode_switch defs cm now (data f ! 0) (word_of_bytes (data f ! 1) (data f ! 2))
       (word_of_bytes (data f ! 3) (data f ! 4)) (getCANID (id_f f))
       (flag_clash (pulse_activity (s\<lparr>m_msg := f\<rparr>)))"
  using assms by (simp add: receive_def process_data_frame) (simp add: get_data_def)

text \<open>What the steps before the switch leave unchanged.\<close>

lemma prelude_fields:
  "m_msg (flag_clash (pulse_activity s)) = m_msg s"
  "module_config (flag_clash (pulse_activity s)) = module_config s"
  "sent (flag_clash (pulse_activity s)) = sent s"
  "bModeChanging (flag_clash (pulse_activity s)) = bModeChanging s"
  "bLearn (flag_clash (pulse_activity s)) = bLearn s"
  "bCANenum (flag_clash (pulse_activity s)) = bCANenum s"
  "enum_responses (flag_clash (pulse_activity s)) = enum_responses s"
  "CANenumTime (flag_clash (pulse_activity s)) = CANenumTime s"
  "m_mparams (flag_clash (pulse_activity s)) = m_mparams s"
  "m_ledYlw (flag_clash (pulse_activity s)) = m_ledYlw s"
  "m_ledGrn (flag_clash (pulse_activity s)) = (if UI s then m_ledGrn s @ [LED_pulse] else m_ledGrn s)"
  "UI (flag_clash (pulse_activity s)) = UI s"
  by (simp_all add: flag_clash_def pulse_activity_def get_data_def)

lemma switch_cases:
  assumes "inj defs"
  shows "opcode_switch defs cm now (defs OPC_RQNPN) nn en rid s = case_OPC_RQNPN defs nn s"
    and "opcode_switch defs cm now (defs OPC_SNN) nn en rid s = case_OPC_SNN defs now nn s"
    and "opcode_switch defs cm now (defs OPC_CANID) nn en rid s = case_OPC_CANID defs nn s"
    and "opcode_switch defs cm now (defs OPC_EVULN) nn en rid s = case_OPC_EVULN defs cm nn en s"
    and "opcode_switch defs cm now (defs OPC_REVAL) nn en rid s = case_OPC_REVAL defs cm nn s"
    and "opcode_switch defs cm now (defs OPC_EVLRN) nn en rid s = case_OPC_EVLRN defs cm nn en s"
  using assms by (simp_all add: opcode_switch_def inj_eq)


subsection \<open>The operation codes of the claims\<close>

lemma sendCMDERR_effect:
  "sendCMDERR defs s e =
     s\<lparr>m_msg := (m_msg s)\<lparr>id_f := push_bit 7 0xB + ucast (CANID (module_config s) AND 0x7f), len := 4,
            data := (data (m_msg s))[0 := defs OPC_CMDERR, 1 := highByte (nodeNum (module_config s)),
                      2 := lowByte (nodeNum (module_config s)), 3 := e]\<rparr>,
       sent := sent s @
         [\<lparr>id_f = push_bit 7 0xB + ucast (CANID (module_config s) AND 0x7f), ext = False, rtr = False,
           len = 4,
           data = (data (m_msg s))[0 := defs OPC_CMDERR, 1 := highByte (nodeNum (module_config s)),
                      2 := lowByte (nodeNum (module_config s)), 3 := e]\<rparr>]\<rparr>"
  by (simp add: msg_defs Let_def DEFAULT_PRIORITY_def)

lemma sendWRACK_effect:
  "sendWRACK defs s =
     s\<lparr>m_msg := (m_msg s)\<lparr>id_f := push_bit 7 0xB + ucast (CANID (module_config s) AND 0x7f), len := 3,
            data := (data (m_msg s))[0 := defs OPC_WRACK, 1 := highByte (nodeNum (module_config s)),
                      2 := lowByte (nodeNum (module_config s))]\<rparr>,
       sent := sent s @
         [\<lparr>id_f = push_bit 7 0xB + ucast (CANID (module_config s) AND 0x7f), ext = False, rtr = False,
           len = 3,
           data = (data (m_msg s))[0 := defs OPC_WRACK, 1 := highByte (nodeNum (module_config s)),
                      2 := lowByte (nodeNum (module_config s))]\<rparr>]\<rparr>"
  by (simp add: msg_defs Let_def DEFAULT_PRIORITY_def)

text \<open>
  Claim C7. A \<open>CANID\<close> frame (a standard frame with a payload whose first byte is the
  \<open>CANID\<close> code) whose node number is ours: if \<open>data[3]\<close> is 0 or above 99, exactly
  one frame is sent, the \<open>CMDERR\<close> response with error number 7, and the CAN identifier
  of the configuration is unchanged; if \<open>data[3]\<close> is in 1..99, it becomes the CAN
  identifier and no frame is sent.
\<close>

theorem canid_in_range_or_cmderr:
  assumes "inj defs" and "frame_ok f" and "\<not> ext f" and "0 < len f"
    and "data f ! 0 = defs OPC_CANID"
    and "word_of_bytes (data f ! 1) (data f ! 2) = nodeNum (module_config s)"
  shows "(data f ! 3 = 0 \<or> 99 < data f ! 3 \<longrightarrow>
            sent (receive defs cm now s f) = sent s @
              [\<lparr>id_f = push_bit 7 0xB + ucast (CANID (module_config s) AND 0x7f),
                ext = False, rtr = False, len = 4,
                data = (data f)[0 := defs OPC_CMDERR, 1 := highByte (nodeNum (module_config s)),
                                2 := lowByte (nodeNum (module_config s)), 3 := 7]\<rparr>]
          \<and> CANID (module_config (receive defs cm now s f)) = CANID (module_config s))
      \<and> (1 \<le> data f ! 3 \<and> data f ! 3 \<le> 99 \<longrightarrow>
            CANID (module_config (receive defs cm now s f)) = data f ! 3
          \<and> sent (receive defs cm now s f) = sent s)"
proof -
  let ?s0 = "flag_clash (pulse_activity (s\<lparr>m_msg := f\<rparr>))"
  have r: "receive defs cm now s f = case_OPC_CANID defs (nodeNum (module_config s)) ?s0"
    using assms by (simp add: receive_data_frame switch_cases)
  have d3: "get_data ?s0 3 = data f ! 3"
    by (simp add: get_data_def prelude_fields)
  show ?thesis
    unfolding r case_OPC_CANID_def d3
    by (auto simp: prelude_fields sendCMDERR_effect setCANID_def word_less_1 not_less)
qed

text \<open>The boundary values 99, 1, 100 and 0 on the example node.\<close>

theorem canid_in_range_or_cmderr_witness:
  "CANID (module_config (receive example_defs sim_methods 0 example_node
      (data_frame 7 4 [example_defs OPC_CANID, 1, 4, 99, 0, 0, 0, 0]))) = 99
   \<and> sent (receive example_defs sim_methods 0 example_node
      (data_frame 7 4 [example_defs OPC_CANID, 1, 4, 99, 0, 0, 0, 0])) = []
   \<and> CANID (module_config (receive example_defs sim_methods 0 example_node
      (data_frame 7 4 [example_defs OPC_CANID, 1, 4, 1, 0, 0, 0, 0]))) = 1
   \<and> CANID (module_config (receive example_defs sim_methods 0 example_node
      (data_frame 7 4 [example_defs OPC_CANID, 1, 4, 100, 0, 0, 0, 0]))) = 5
   \<and> sent (receive example_defs sim_methods 0 example_node
      (data_frame 7 4 [example_defs OPC_CANID, 1, 4, 100, 0, 0, 0, 0])) =
        [\<lparr>id_f = 0x585, ext = False, rtr = False, len = 4,
          data = [example_defs OPC_CMDERR, 1, 4, 7, 0, 0, 0, 0]\<rparr>]
   \<and> sent (receive example_defs sim_methods 0 example_node
      (data_frame 7 4 [example_defs OPC_CANID, 1, 4, 0, 0, 0, 0, 0])) =
        [\<lparr>id_f = 0x585, ext = False, rtr = False, len = 4,
          data = [example_defs OPC_CMDERR, 1, 4, 7, 0, 0, 0, 0]\<rparr>]"
  using canid_in_range_or_cmderr [OF inj_example_defs, of "data_frame 7 4 [example_defs OPC_CANID, 1, 4, 99, 0, 0, 0, 0]" example_node sim_methods 0]
    canid_in_range_or_cmderr [OF inj_example_defs, of "data_frame 7 4 [example_defs OPC_CANID, 1, 4, 1, 0, 0, 0, 0]" example_node sim_methods 0]
    canid_in_range_or_cmderr [OF inj_example_defs, of "data_frame 7 4 [example_defs OPC_CANID, 1, 4, 100, 0, 0, 0, 0]" example_node sim_methods 0]
    canid_in_range_or_cmderr [OF inj_example_defs, of "data_frame 7 4 [example_defs OPC_CANID, 1, 4, 0, 0, 0, 0, 0]" example_node sim_methods 0]
  by (simp add: data_frame_def frame_ok_def example_node_def example_config_def word_of_bytes_def
      highByte_def lowByte_def)

text \<open>
  Claim C8. An \<open>RQNPN\<close> frame whose node number is ours, the parameter array having
  the \<open>params[0] + 1\<close> entries its first entry announces: if the index \<open>data[3]\<close> is at
  most \<open>params[0]\<close>, exactly one frame is sent, a \<open>PARAN\<close> of length 5 with the index
  in \<open>data[3]\<close> and the parameter in \<open>data[4]\<close>; if the index is above \<open>params[0]\<close>,
  exactly one frame is sent, the \<open>CMDERR\<close> response with error number 9, and no frame
  sent is a \<open>PARAN\<close>.
\<close>

theorem rqnpn_param_or_cmderr:
  assumes "inj defs" and "frame_ok f" and "\<not> ext f" and "0 < len f"
    and "data f ! 0 = defs OPC_RQNPN"
    and "word_of_bytes (data f ! 1) (data f ! 2) = nodeNum (module_config s)"
    and "unat (m_mparams s ! 0) < length (m_mparams s)"
  shows "(data f ! 3 \<le> m_mparams s ! 0 \<longrightarrow>
            sent (receive defs cm now s f) = sent s @
              [\<lparr>id_f = push_bit 7 0xB + ucast (CANID (module_config s) AND 0x7f),
                ext = False, rtr = False, len = 5,
                data = (data f)[0 := defs OPC_PARAN, 3 := data f ! 3,
                                4 := m_mparams s ! unat (data f ! 3)]\<rparr>])
      \<and> (m_mparams s ! 0 < data f ! 3 \<longrightarrow>
            sent (receive defs cm now s f) = sent s @
              [\<lparr>id_f = push_bit 7 0xB + ucast (CANID (module_config s) AND 0x7f),
                ext = False, rtr = False, len = 4,
                data = (data f)[0 := defs OPC_CMDERR, 1 := highByte (nodeNum (module_config s)),
                                2 := lowByte (nodeNum (module_config s)), 3 := 9]\<rparr>]
          \<and> (\<forall>r \<in> set (drop (length (sent s)) (sent (receive defs cm now s f))).
                 data r ! 0 \<noteq> defs OPC_PARAN))"
proof -
  let ?s0 = "flag_clash (pulse_activity (s\<lparr>m_msg := f\<rparr>))"
  have r: "receive defs cm now s f = case_OPC_RQNPN defs (nodeNum (module_config s)) ?s0"
    using assms by (simp add: receive_data_frame switch_cases)
  have d3: "get_data ?s0 3 = data f ! 3"
    by (simp add: get_data_def prelude_fields)
  have ne: "defs OPC_CMDERR \<noteq> defs OPC_PARAN"
    using assms(1) by (simp add: inj_eq)
  have l: "0 < length (data f)" using assms(2) by (simp add: frame_ok_def)
  show ?thesis
    unfolding r case_OPC_RQNPN_def d3 Let_def
    using ne l
    by (auto simp: prelude_fields sendCMDERR_effect msg_defs DEFAULT_PRIORITY_def Let_def not_le)
qed

text \<open>The indices 8 (equal to \<open>params[0]\<close>), 3 and 9 on the example node.\<close>

theorem rqnpn_param_or_cmderr_witness:
  "sent (receive example_defs sim_methods 0 example_node
      (data_frame 7 4 [example_defs OPC_RQNPN, 1, 4, 8, 0, 0, 0, 0])) =
        [\<lparr>id_f = 0x585, ext = False, rtr = False, len = 5,
          data = [example_defs OPC_PARAN, 1, 4, 8, 0, 0, 0, 0]\<rparr>]
   \<and> sent (receive example_defs sim_methods 0 example_node
      (data_frame 7 4 [example_defs OPC_RQNPN, 1, 4, 3, 0, 0, 0, 0])) =
        [\<lparr>id_f = 0x585, ext = False, rtr = False, len = 5,
          data = [example_defs OPC_PARAN, 1, 4, 3, 99, 0, 0, 0]\<rparr>]
   \<and> sent (receive example_defs sim_methods 0 example_node
      (data_frame 7 4 [example_defs OPC_RQNPN, 1, 4, 9, 0, 0, 0, 0])) =
        [\<lparr>id_f = 0x585, ext = False, rtr = False, len = 4,
          data = [example_defs OPC_CMDERR, 1, 4, 9, 0, 0, 0, 0]\<rparr>]"
  using rqnpn_param_or_cmderr [OF inj_example_defs, of "data_frame 7 4 [example_defs OPC_RQNPN, 1, 4, 8, 0, 0, 0, 0]" example_node sim_methods 0]
    rqnpn_param_or_cmderr [OF inj_example_defs, of "data_frame 7 4 [example_defs OPC_RQNPN, 1, 4, 3, 0, 0, 0, 0]" example_node sim_methods 0]
    rqnpn_param_or_cmderr [OF inj_example_defs, of "data_frame 7 4 [example_defs OPC_RQNPN, 1, 4, 9, 0, 0, 0, 0]" example_node sim_methods 0]
  by (simp add: data_frame_def frame_ok_def example_node_def example_config_def word_of_bytes_def
      highByte_def lowByte_def)

text \<open>
  Claim C9. An \<open>EVLRN\<close> or \<open>EVULN\<close> frame that arrives while \<open>bLearn\<close> is clear: no
  frame is sent and the configuration object, with its event storage, is unchanged. The
  state is the one the steps before the \<open>switch\<close> leave (the frame in \<open>_msg\<close>, the
  activity LED pulsed, \<open>enumeration_required\<close> raised on a CAN identifier clash).
\<close>

theorem evlrn_evuln_ignored_outside_learn_mode:
  assumes "inj defs" and "\<not> ext f" and "0 < len f"
    and "data f ! 0 = defs OPC_EVLRN \<or> data f ! 0 = defs OPC_EVULN"
    and "\<not> bLearn s"
  shows "sent (receive defs cm now s f) = sent s
     \<and> module_config (receive defs cm now s f) = module_config s
     \<and> storage (module_config (receive defs cm now s f)) = storage (module_config s)
     \<and> receive defs cm now s f = flag_clash (pulse_activity (s\<lparr>m_msg := f\<rparr>))"
proof -
  let ?s0 = "flag_clash (pulse_activity (s\<lparr>m_msg := f\<rparr>))"
  have "receive defs cm now s f = ?s0"
    using assms
    by (auto simp: receive_data_frame switch_cases case_OPC_EVLRN_def case_OPC_EVULN_def
        prelude_fields Let_def)
  then show ?thesis by (simp add: prelude_fields)
qed

text \<open>An \<open>EVLRN\<close> and an \<open>EVULN\<close> frame on the example node, which is not in learn mode.\<close>

theorem evlrn_evuln_ignored_outside_learn_mode_witness:
  "sent (receive example_defs sim_methods 0 example_node
      (data_frame 7 7 [example_defs OPC_EVLRN, 0, 10, 0, 20, 1, 0x77, 0])) = []
   \<and> storage (module_config (receive example_defs sim_methods 0 example_node
      (data_frame 7 7 [example_defs OPC_EVLRN, 0, 10, 0, 20, 1, 0x77, 0]))) = example_store
   \<and> sent (receive example_defs sim_methods 0 example_node
      (data_frame 7 5 [example_defs OPC_EVULN, 0, 10, 0, 20, 0, 0, 0])) = []
   \<and> storage (module_config (receive example_defs sim_methods 0 example_node
      (data_frame 7 5 [example_defs OPC_EVULN, 0, 10, 0, 20, 0, 0, 0]))) = example_store"
  using evlrn_evuln_ignored_outside_learn_mode [OF inj_example_defs, of "data_frame 7 7 [example_defs OPC_EVLRN, 0, 10, 0, 20, 1, 0x77, 0]" example_node sim_methods 0]
    evlrn_evuln_ignored_outside_learn_mode [OF inj_example_defs, of "data_frame 7 5 [example_defs OPC_EVULN, 0, 10, 0, 20, 0, 0, 0]" example_node sim_methods 0]
  by (simp add: data_frame_def example_node_def example_config_def flag_clash_def
      pulse_activity_def get_data_def getCANID_def word_of_bytes_def)

lemma receive_EVLRN:
  assumes "inj defs" and "\<not> ext f" and "0 < len f" and "data f ! 0 = defs OPC_EVLRN" and "bLearn s"
  shows "receive defs cm now s f =
     (let s0 = flag_clash (pulse_activity (s\<lparr>m_msg := f\<rparr>));
          index = evlrn_index cm s f;
          st = storage (module_config s)
      in if index < EE_MAX_EVENTS (module_config s) then
           sendWRACK defs (s0\<lparr>module_config := (module_config s)\<lparr>storage :=
              writeEventEV cm
                (if data f ! 5 < 2 then updateEvHashEntry cm (writeEvent cm st index (drop 1 (data f))) index
                 else st)
                index (data f ! 5) (data f ! 6)\<rparr>\<rparr>)
         else sendCMDERR defs s0 10)"
  using assms
  by (simp add: receive_data_frame switch_cases case_OPC_EVLRN_def prelude_fields Let_def
      evlrn_index_def get_data_def)

text \<open>
  Claim C4. An \<open>EVLRN\<close> frame handled in learn mode. The index is that of
  \<open>findExistingEvent(nn, en)\<close>, or of \<open>findEventSpace()\<close> when the former is not below
  \<open>EE_MAX_EVENTS\<close>. If the index is not below \<open>EE_MAX_EVENTS\<close>: one frame is sent, the
  \<open>CMDERR\<close> response with error number 10, and the configuration and its storage are
  unchanged. Otherwise the storage is the result of \<open>writeEventEV(index, data[5],
  data[6])\<close>, applied after \<open>writeEvent(index, &data[1])\<close> (the four bytes \<open>nn\<close>,
  \<open>en\<close> lead) and \<open>updateEvHashEntry(index)\<close> when \<open>data[5] < 2\<close>, and to the storage as
  it was when \<open>data[5] \<ge> 2\<close>; and one frame is sent, the \<open>WRACK\<close> response.
\<close>

theorem evlrn_learn_mode_effect:
  assumes "inj defs" and "frame_ok f" and "\<not> ext f" and "0 < len f"
    and "data f ! 0 = defs OPC_EVLRN" and "bLearn s"
  shows "evlrn_index cm s f =
           (if findExistingEvent cm (storage (module_config s))
                 (word_of_bytes (data f ! 1) (data f ! 2)) (word_of_bytes (data f ! 3) (data f ! 4))
               \<ge> EE_MAX_EVENTS (module_config s)
            then findEventSpace cm (storage (module_config s))
            else findExistingEvent cm (storage (module_config s))
                 (word_of_bytes (data f ! 1) (data f ! 2)) (word_of_bytes (data f ! 3) (data f ! 4)))
     \<and> (evlrn_index cm s f \<ge> EE_MAX_EVENTS (module_config s) \<longrightarrow>
            sent (receive defs cm now s f) = sent s @
              [\<lparr>id_f = push_bit 7 0xB + ucast (CANID (module_config s) AND 0x7f),
                ext = False, rtr = False, len = 4,
                data = (data f)[0 := defs OPC_CMDERR, 1 := highByte (nodeNum (module_config s)),
                                2 := lowByte (nodeNum (module_config s)), 3 := 10]\<rparr>]
          \<and> module_config (receive defs cm now s f) = module_config s)
     \<and> (evlrn_index cm s f < EE_MAX_EVENTS (module_config s) \<longrightarrow>
            storage (module_config (receive defs cm now s f)) =
              writeEventEV cm
                (if data f ! 5 < 2
                 then updateEvHashEntry cm
                        (writeEvent cm (storage (module_config s)) (evlrn_index cm s f) (drop 1 (data f)))
                        (evlrn_index cm s f)
                 else storage (module_config s))
                (evlrn_index cm s f) (data f ! 5) (data f ! 6)
          \<and> take 4 (drop 1 (data f)) = [data f ! 1, data f ! 2, data f ! 3, data f ! 4]
          \<and> sent (receive defs cm now s f) = sent s @
              [\<lparr>id_f = push_bit 7 0xB + ucast (CANID (module_config s) AND 0x7f),
                ext = False, rtr = False, len = 3,
                data = (data f)[0 := defs OPC_WRACK, 1 := highByte (nodeNum (module_config s)),
                                2 := lowByte (nodeNum (module_config s))]\<rparr>])"
proof -
  have hdr: "take 4 (drop 1 (data f)) = [data f ! 1, data f ! 2, data f ! 3, data f ! 4]"
  proof -
    from assms(2) obtain a b c d e g h i where "data f = [a, b, c, d, e, g, h, i]"
      by (auto simp: frame_ok_def length_Suc_conv eval_nat_numeral)
    then show ?thesis by simp
  qed
  have idx: "evlrn_index cm s f =
           (if findExistingEvent cm (storage (module_config s))
                 (word_of_bytes (data f ! 1) (data f ! 2)) (word_of_bytes (data f ! 3) (data f ! 4))
               \<ge> EE_MAX_EVENTS (module_config s)
            then findEventSpace cm (storage (module_config s))
            else findExistingEvent cm (storage (module_config s))
                 (word_of_bytes (data f ! 1) (data f ! 2)) (word_of_bytes (data f ! 3) (data f ! 4)))"
    by (simp add: evlrn_index_def Let_def)
  note r = receive_EVLRN [OF assms(1,3,4,5,6), of cm now]
  have full: "evlrn_index cm s f \<ge> EE_MAX_EVENTS (module_config s) \<longrightarrow>
            sent (receive defs cm now s f) = sent s @
              [\<lparr>id_f = push_bit 7 0xB + ucast (CANID (module_config s) AND 0x7f),
                ext = False, rtr = False, len = 4,
                data = (data f)[0 := defs OPC_CMDERR, 1 := highByte (nodeNum (module_config s)),
                                2 := lowByte (nodeNum (module_config s)), 3 := 10]\<rparr>]
          \<and> module_config (receive defs cm now s f) = module_config s"
    unfolding r by (simp add: Let_def not_less [symmetric] sendCMDERR_effect prelude_fields)
  have ok: "evlrn_index cm s f < EE_MAX_EVENTS (module_config s) \<longrightarrow>
            storage (module_config (receive defs cm now s f)) =
              writeEventEV cm
                (if data f ! 5 < 2
                 then updateEvHashEntry cm
                        (writeEvent cm (storage (module_config s)) (evlrn_index cm s f) (drop 1 (data f)))
                        (evlrn_index cm s f)
                 else storage (module_config s))
                (evlrn_index cm s f) (data f ! 5) (data f ! 6)
          \<and> sent (receive defs cm now s f) = sent s @
              [\<lparr>id_f = push_bit 7 0xB + ucast (CANID (module_config s) AND 0x7f),
                ext = False, rtr = False, len = 3,
                data = (data f)[0 := defs OPC_WRACK, 1 := highByte (nodeNum (module_config s)),
                                2 := lowByte (nodeNum (module_config s))]\<rparr>]"
    unfolding r by (simp add: Let_def sendWRACK_effect prelude_fields)
  from idx full ok hdr show ?thesis by blast
qed

lemmas sim_defs = sim_methods_def sim_findExistingEvent_def sim_findEventSpace_def
  sim_writeEvent_def sim_updateEvHashEntry_def sim_writeEventEV_def sim_getEventEVval_def
  sim_getEvTableEntry_def first_index_def

lemmas example_defs_unfold = data_frame_def frame_ok_def example_node_def example_config_def
  example_store_def learning_node_def full_node_def full_store_def empty_frame_def

lemma upt4: "[0 ..< 4] = [0, 1, 2, 3]"
  by (simp add: upt_rec)

text \<open>
  Learning event (10, 20) on the empty example store with event variable 1, then with
  event variable 2 (no header is written), and on a store with no free slot.
\<close>

theorem evlrn_learn_mode_effect_witness:
  "evlrn_index sim_methods learning_node
      (data_frame 7 7 [example_defs OPC_EVLRN, 0, 10, 0, 20, 1, 0x77, 0]) = 0
   \<and> storage (module_config (receive example_defs sim_methods 0 learning_node
      (data_frame 7 7 [example_defs OPC_EVLRN, 0, 10, 0, 20, 1, 0x77, 0]))) =
        \<lparr> sim_table = [Some (10, 20), None, None, None], sim_hash = [1, 0, 0, 0],
          sim_evs = [[0, 0x77, 0], [0, 0, 0], [0, 0, 0], [0, 0, 0]], sim_nvs = [0, 0, 0, 0, 0] \<rparr>
   \<and> sent (receive example_defs sim_methods 0 learning_node
      (data_frame 7 7 [example_defs OPC_EVLRN, 0, 10, 0, 20, 1, 0x77, 0])) =
        [\<lparr>id_f = 0x585, ext = False, rtr = False, len = 3,
          data = [example_defs OPC_WRACK, 1, 4, 0, 20, 1, 0x77, 0]\<rparr>]
   \<and> storage (module_config (receive example_defs sim_methods 0 learning_node
      (data_frame 7 7 [example_defs OPC_EVLRN, 0, 10, 0, 20, 2, 0x77, 0]))) =
        \<lparr> sim_table = [None, None, None, None], sim_hash = [0, 0, 0, 0],
          sim_evs = [[0, 0, 0x77], [0, 0, 0], [0, 0, 0], [0, 0, 0]], sim_nvs = [0, 0, 0, 0, 0] \<rparr>
   \<and> evlrn_index sim_methods full_node
      (data_frame 7 7 [example_defs OPC_EVLRN, 0, 10, 0, 20, 1, 0x77, 0]) = 4
   \<and> storage (module_config (receive example_defs sim_methods 0 full_node
      (data_frame 7 7 [example_defs OPC_EVLRN, 0, 10, 0, 20, 1, 0x77, 0]))) = full_store
   \<and> sent (receive example_defs sim_methods 0 full_node
      (data_frame 7 7 [example_defs OPC_EVLRN, 0, 10, 0, 20, 1, 0x77, 0])) =
        [\<lparr>id_f = 0x585, ext = False, rtr = False, len = 4,
          data = [example_defs OPC_CMDERR, 1, 4, 10, 20, 1, 0x77, 0]\<rparr>]"
  using evlrn_learn_mode_effect [OF inj_example_defs, of "data_frame 7 7 [example_defs OPC_EVLRN, 0, 10, 0, 20, 1, 0x77, 0]" learning_node sim_methods 0]
    evlrn_learn_mode_effect [OF inj_example_defs, of "data_frame 7 7 [example_defs OPC_EVLRN, 0, 10, 0, 20, 2, 0x77, 0]" learning_node sim_methods 0]
    evlrn_learn_mode_effect [OF inj_example_defs, of "data_frame 7 7 [example_defs OPC_EVLRN, 0, 10, 0, 20, 1, 0x77, 0]" full_node sim_methods 0]
  by (simp add: example_defs_unfold sim_defs upt4 word_of_bytes_def highByte_def lowByte_def
      evlrn_index_def Let_def)

text \<open>
  Claim C5. An \<open>SNN\<close> frame. If \<open>bModeChanging\<close> is set: afterwards \<open>FLiM\<close> is true,
  \<open>nodeNum\<close> is the number in \<open>data[1..2]\<close>, \<open>bModeChanging\<close> is false, the LEDs (if
  fitted, \<open>UI\<close>) got the calls of \<open>MODE_FLIM\<close> (yellow on, green off, after the
  activity pulse), two frames were sent, the \<open>NNACK\<close> of length 3 and the zero-length
  remote frame of the enumeration, and an enumeration cycle runs: \<open>enum_responses\<close> is
  all zero, \<open>bCANenum\<close> is set and \<open>CANenumTime\<close> is the current time. If
  \<open>bModeChanging\<close> is clear: the \<open>SNN\<close> case does nothing; the state is the one the
  steps before the \<open>switch\<close> leave for every frame (the frame in \<open>_msg\<close>, the activity
  LED pulsed, \<open>enumeration_required\<close> raised on a CAN identifier clash), no frame is
  sent, and the configuration, the mode flags and the enumeration state are unchanged.
\<close>

theorem snn_sets_node_number_and_enumerates:
  assumes "inj defs" and "frame_ok f" and "\<not> ext f" and "0 < len f"
    and "data f ! 0 = defs OPC_SNN"
  shows "(bModeChanging s \<longrightarrow>
            FLiM (module_config (receive defs cm now s f))
          \<and> nodeNum (module_config (receive defs cm now s f)) = word_of_bytes (data f ! 1) (data f ! 2)
          \<and> \<not> bModeChanging (receive defs cm now s f)
          \<and> (UI s \<longrightarrow> m_ledYlw (receive defs cm now s f) = m_ledYlw s @ [LED_on]
                     \<and> m_ledGrn (receive defs cm now s f) = m_ledGrn s @ [LED_pulse, LED_off])
          \<and> sent (receive defs cm now s f) = sent s @
              [\<lparr>id_f = push_bit 7 0xB + ucast (CANID (module_config s) AND 0x7f),
                ext = False, rtr = False, len = 3, data = (data f)[0 := defs OPC_NNACK]\<rparr>,
               \<lparr>id_f = push_bit 7 0xB + ucast (CANID (module_config s) AND 0x7f),
                ext = False, rtr = True, len = 0, data = (data f)[0 := defs OPC_NNACK]\<rparr>]
          \<and> enum_responses (receive defs cm now s f) = replicate 16 0
          \<and> bCANenum (receive defs cm now s f)
          \<and> CANenumTime (receive defs cm now s f) = now)
      \<and> (\<not> bModeChanging s \<longrightarrow>
            receive defs cm now s f = flag_clash (pulse_activity (s\<lparr>m_msg := f\<rparr>))
          \<and> sent (receive defs cm now s f) = sent s
          \<and> module_config (receive defs cm now s f) = module_config s
          \<and> \<not> bModeChanging (receive defs cm now s f)
          \<and> bCANenum (receive defs cm now s f) = bCANenum s
          \<and> enum_responses (receive defs cm now s f) = enum_responses s
          \<and> CANenumTime (receive defs cm now s f) = CANenumTime s
          \<and> m_ledYlw (receive defs cm now s f) = m_ledYlw s)"
proof -
  let ?s0 = "flag_clash (pulse_activity (s\<lparr>m_msg := f\<rparr>))"
  have r: "receive defs cm now s f =
      case_OPC_SNN defs now (word_of_bytes (data f ! 1) (data f ! 2)) ?s0"
    using assms by (simp add: receive_data_frame switch_cases)
  have off: "\<not> bModeChanging s \<longrightarrow> receive defs cm now s f = ?s0"
    unfolding r by (simp add: case_OPC_SNN_def prelude_fields)
  have on: "bModeChanging s \<longrightarrow>
            FLiM (module_config (receive defs cm now s f))
          \<and> nodeNum (module_config (receive defs cm now s f)) = word_of_bytes (data f ! 1) (data f ! 2)
          \<and> \<not> bModeChanging (receive defs cm now s f)
          \<and> (UI s \<longrightarrow> m_ledYlw (receive defs cm now s f) = m_ledYlw s @ [LED_on]
                     \<and> m_ledGrn (receive defs cm now s f) = m_ledGrn s @ [LED_pulse, LED_off])
          \<and> sent (receive defs cm now s f) = sent s @
              [\<lparr>id_f = push_bit 7 0xB + ucast (CANID (module_config s) AND 0x7f),
                ext = False, rtr = False, len = 3, data = (data f)[0 := defs OPC_NNACK]\<rparr>,
               \<lparr>id_f = push_bit 7 0xB + ucast (CANID (module_config s) AND 0x7f),
                ext = False, rtr = True, len = 0, data = (data f)[0 := defs OPC_NNACK]\<rparr>]
          \<and> enum_responses (receive defs cm now s f) = replicate 16 0
          \<and> bCANenum (receive defs cm now s f)
          \<and> CANenumTime (receive defs cm now s f) = now"
    unfolding r
    by (simp add: case_OPC_SNN_def prelude_fields msg_defs CANenumeration_def indicateMode_def
        setNodeNum_def setFLiM_def byte_of_bool_def MODE_FLIM_def MODE_SLIM_def MODE_CHANGING_def
        DEFAULT_PRIORITY_def Let_def)
  from on off show ?thesis by (auto simp: prelude_fields)
qed

text \<open>
  The setup scenario: \<open>SNN\<close> with node number 260 on a node in transition, and an
  \<open>SNN\<close> on a node that is not.
\<close>

theorem snn_sets_node_number_and_enumerates_witness:
  "FLiM (module_config (receive example_defs sim_methods 1000 changing_node
      (data_frame 1 3 [example_defs OPC_SNN, 1, 4, 0, 0, 0, 0, 0])))
   \<and> nodeNum (module_config (receive example_defs sim_methods 1000 changing_node
      (data_frame 1 3 [example_defs OPC_SNN, 1, 4, 0, 0, 0, 0, 0]))) = 260
   \<and> \<not> bModeChanging (receive example_defs sim_methods 1000 changing_node
      (data_frame 1 3 [example_defs OPC_SNN, 1, 4, 0, 0, 0, 0, 0]))
   \<and> m_ledYlw (receive example_defs sim_methods 1000 changing_node
      (data_frame 1 3 [example_defs OPC_SNN, 1, 4, 0, 0, 0, 0, 0])) = [LED_on]
   \<and> m_ledGrn (receive example_defs sim_methods 1000 changing_node
      (data_frame 1 3 [example_defs OPC_SNN, 1, 4, 0, 0, 0, 0, 0])) = [LED_pulse, LED_off]
   \<and> sent (receive example_defs sim_methods 1000 changing_node
      (data_frame 1 3 [example_defs OPC_SNN, 1, 4, 0, 0, 0, 0, 0])) =
        [\<lparr>id_f = 0x580, ext = False, rtr = False, len = 3,
          data = [example_defs OPC_NNACK, 1, 4, 0, 0, 0, 0, 0]\<rparr>,
         \<lparr>id_f = 0x580, ext = False, rtr = True, len = 0,
          data = [example_defs OPC_NNACK, 1, 4, 0, 0, 0, 0, 0]\<rparr>]
   \<and> bCANenum (receive example_defs sim_methods 1000 changing_node
      (data_frame 1 3 [example_defs OPC_SNN, 1, 4, 0, 0, 0, 0, 0]))
   \<and> CANenumTime (receive example_defs sim_methods 1000 changing_node
      (data_frame 1 3 [example_defs OPC_SNN, 1, 4, 0, 0, 0, 0, 0])) = 1000
   \<and> sent (receive example_defs sim_methods 1000 example_node
      (data_frame 1 3 [example_defs OPC_SNN, 1, 5, 0, 0, 0, 0, 0])) = []
   \<and> module_config (receive example_defs sim_methods 1000 example_node
      (data_frame 1 3 [example_defs OPC_SNN, 1, 5, 0, 0, 0, 0, 0])) = example_config
   \<and> \<not> bCANenum (receive example_defs sim_methods 1000 example_node
      (data_frame 1 3 [example_defs OPC_SNN, 1, 5, 0, 0, 0, 0, 0]))"
  using snn_sets_node_number_and_enumerates [OF inj_example_defs, of "data_frame 1 3 [example_defs OPC_SNN, 1, 4, 0, 0, 0, 0, 0]" changing_node sim_methods 1000]
    snn_sets_node_number_and_enumerates [OF inj_example_defs, of "data_frame 1 3 [example_defs OPC_SNN, 1, 5, 0, 0, 0, 0, 0]" example_node sim_methods 1000]
  by (simp add: example_defs_unfold changing_node_def word_of_bytes_def flag_clash_def
      pulse_activity_def get_data_def getCANID_def)


subsection \<open>Learning an event and reading it back\<close>

lemma receive_REVAL:
  assumes "inj defs" and "\<not> ext g" and "0 < len g" and "data g ! 0 = defs OPC_REVAL"
    and "word_of_bytes (data g ! 1) (data g ! 2) = nodeNum (module_config s)"
  shows "sent (receive defs cm now s g) = sent s @
     [if getEvTableEntry cm (storage (module_config s)) (data g ! 3) \<noteq> 0 then
        \<lparr>id_f = push_bit 7 0xB + ucast (CANID (module_config s) AND 0x7f),
         ext = False, rtr = False, len = 6,
         data = (data g)[0 := defs OPC_NEVAL,
                  5 := getEventEVval cm (storage (module_config s))
                         ((data g)[0 := defs OPC_NEVAL] ! 3) ((data g)[0 := defs OPC_NEVAL] ! 4)]\<rparr>
      else
        \<lparr>id_f = push_bit 7 0xB + ucast (CANID (module_config s) AND 0x7f),
         ext = False, rtr = False, len = 4,
         data = (data g)[0 := defs OPC_CMDERR, 1 := highByte (nodeNum (module_config s)),
                         2 := lowByte (nodeNum (module_config s)), 3 := 6]\<rparr>]"
  using assms
  by (simp add: receive_data_frame switch_cases case_OPC_REVAL_def prelude_fields Let_def
      sendCMDERR_effect msg_defs DEFAULT_PRIORITY_def)

lemma receive_EVLRN_config:
  assumes "inj defs" and "\<not> ext f" and "0 < len f" and "data f ! 0 = defs OPC_EVLRN" and "bLearn s"
    and "evlrn_index cm s f < EE_MAX_EVENTS (module_config s)"
  shows "module_config (receive defs cm now s f) = (module_config s)\<lparr>storage :=
              writeEventEV cm
                (if data f ! 5 < 2
                 then updateEvHashEntry cm
                        (writeEvent cm (storage (module_config s)) (evlrn_index cm s f) (drop 1 (data f)))
                        (evlrn_index cm s f)
                 else storage (module_config s))
                (evlrn_index cm s f) (data f ! 5) (data f ! 6)\<rparr>"
  using assms
  by (simp add: receive_EVLRN Let_def sendWRACK_effect prelude_fields)

lemma receive_EVLRN_sent:
  assumes "inj defs" and "\<not> ext f" and "0 < len f" and "data f ! 0 = defs OPC_EVLRN" and "bLearn s"
    and "evlrn_index cm s f < EE_MAX_EVENTS (module_config s)"
  shows "sent (receive defs cm now s f) = sent s @
              [\<lparr>id_f = push_bit 7 0xB + ucast (CANID (module_config s) AND 0x7f),
                ext = False, rtr = False, len = 3,
                data = (data f)[0 := defs OPC_WRACK, 1 := highByte (nodeNum (module_config s)),
                                2 := lowByte (nodeNum (module_config s))]\<rparr>]"
  using assms
  by (simp add: receive_EVLRN Let_def sendWRACK_effect prelude_fields)

text \<open>
  Claim C3, as amended. In learn mode, let an \<open>EVLRN\<close> frame with \<open>(nn, en)\<close>, event
  variable index \<open>k = data[5]\<close> and value \<open>v = data[6]\<close> be processed with a slot
  available, and let a \<open>REVAL\<close> frame follow with our node number, with the event
  index \<open>findExistingEvent(nn, en)\<close> (looked up after the \<open>EVLRN\<close>) and with event
  variable index \<open>k\<close>. Suppose the store reads back the event variable just written
  (\<open>getEventEVval\<close> after \<open>writeEventEV\<close> at the same slot and index), that the
  lookup returns the slot the \<open>EVLRN\<close> wrote to, and that the table entry of that slot
  is not zero. Then the \<open>REVAL\<close> is answered by exactly one frame, a \<open>NEVAL\<close> of length
  6 whose \<open>data[5]\<close> is \<open>v\<close>. The store's methods are parameters.
\<close>

theorem evlrn_reval_roundtrip:
  assumes "inj defs" and "frame_ok f" and "\<not> ext f" and "0 < len f"
    and "data f ! 0 = defs OPC_EVLRN" and "bLearn s"
    and "evlrn_index cm s f < EE_MAX_EVENTS (module_config s)"
    and "frame_ok g" and "\<not> ext g" and "0 < len g" and "data g ! 0 = defs OPC_REVAL"
    and "word_of_bytes (data g ! 1) (data g ! 2) = nodeNum (module_config s)"
    and "data g ! 3 = findExistingEvent cm (storage (module_config (receive defs cm now s f)))
            (word_of_bytes (data f ! 1) (data f ! 2)) (word_of_bytes (data f ! 3) (data f ! 4))"
    and "data g ! 4 = data f ! 5"
    and "getEventEVval cm
           (writeEventEV cm
              (if data f ! 5 < 2
               then updateEvHashEntry cm
                      (writeEvent cm (storage (module_config s)) (evlrn_index cm s f) (drop 1 (data f)))
                      (evlrn_index cm s f)
               else storage (module_config s))
              (evlrn_index cm s f) (data f ! 5) (data f ! 6))
           (evlrn_index cm s f) (data f ! 5) = data f ! 6"
    and "findExistingEvent cm (storage (module_config (receive defs cm now s f)))
            (word_of_bytes (data f ! 1) (data f ! 2)) (word_of_bytes (data f ! 3) (data f ! 4))
         = evlrn_index cm s f"
    and "getEvTableEntry cm (storage (module_config (receive defs cm now s f))) (evlrn_index cm s f) \<noteq> 0"
  shows "sent (receive defs cm now' (receive defs cm now s f) g) =
           sent (receive defs cm now s f) @
             [\<lparr>id_f = push_bit 7 0xB + ucast (CANID (module_config s) AND 0x7f),
               ext = False, rtr = False, len = 6,
               data = (data g)[0 := defs OPC_NEVAL, 5 := data f ! 6]\<rparr>]"
proof -
  let ?s1 = "receive defs cm now s f"
  note cfg = receive_EVLRN_config [OF assms(1,3,4,5,6,7), of now]
  have nn: "word_of_bytes (data g ! 1) (data g ! 2) = nodeNum (module_config ?s1)"
    using assms(12) by (simp add: cfg)
  have l: "3 < length (data g)" "4 < length (data g)"
    using assms(8) by (simp_all add: frame_ok_def)
  have g3: "data g ! 3 = evlrn_index cm s f" using assms(13,16) by simp
  have val: "getEventEVval cm (storage (module_config ?s1)) (evlrn_index cm s f) (data f ! 5) = data f ! 6"
    using assms(15) by (simp add: cfg)
  show ?thesis
    using receive_REVAL [OF assms(1,9,10,11) nn, of cm now'] assms(17) g3 assms(14) val l
    by (simp add: cfg)
qed

text \<open>
  The learn cycle of the spec on the example store: \<open>EVLRN\<close> for event (10, 20) with
  event variable 1 and value \<open>0x77\<close>, then \<open>REVAL\<close> for slot 0 and variable 1.
\<close>

theorem evlrn_reval_roundtrip_witness:
  "sent (receive example_defs sim_methods 1 
      (receive example_defs sim_methods 0 learning_node
         (data_frame 7 7 [example_defs OPC_EVLRN, 0, 10, 0, 20, 1, 0x77, 0]))
      (data_frame 7 5 [example_defs OPC_REVAL, 1, 4, 0, 1, 0, 0, 0])) =
     [\<lparr>id_f = 0x585, ext = False, rtr = False, len = 3,
       data = [example_defs OPC_WRACK, 1, 4, 0, 20, 1, 0x77, 0]\<rparr>,
      \<lparr>id_f = 0x585, ext = False, rtr = False, len = 6,
       data = [example_defs OPC_NEVAL, 1, 4, 0, 1, 0x77, 0, 0]\<rparr>]"
proof -
  let ?f = "data_frame 7 7 [example_defs OPC_EVLRN, 0, 10, 0, 20, 1, 0x77, 0]"
  let ?g = "data_frame 7 5 [example_defs OPC_REVAL, 1, 4, 0, 1, 0, 0, 0]"
  have idx: "evlrn_index sim_methods learning_node ?f = 0"
    by (simp add: example_defs_unfold sim_defs upt4 word_of_bytes_def evlrn_index_def Let_def)
  have lt: "evlrn_index sim_methods learning_node ?f < EE_MAX_EVENTS (module_config learning_node)"
    unfolding idx by (simp add: example_defs_unfold)
  have basics: "frame_ok ?f" "\<not> ext ?f" "0 < len ?f" "data ?f ! 0 = example_defs OPC_EVLRN"
    "bLearn learning_node" "frame_ok ?g" "\<not> ext ?g" "0 < len ?g"
    "data ?g ! 0 = example_defs OPC_REVAL"
    "word_of_bytes (data ?g ! 1) (data ?g ! 2) = nodeNum (module_config learning_node)"
    "data ?g ! 4 = data ?f ! 5"
    by (simp_all add: example_defs_unfold word_of_bytes_def)
  note cfg = receive_EVLRN_config [OF inj_example_defs basics(2,3,4,5) lt, of 0]
  have st: "storage (module_config (receive example_defs sim_methods 0 learning_node ?f)) =
        \<lparr> sim_table = [Some (10, 20), None, None, None], sim_hash = [1, 0, 0, 0],
          sim_evs = [[0, 0x77, 0], [0, 0, 0], [0, 0, 0], [0, 0, 0]], sim_nvs = [0, 0, 0, 0, 0] \<rparr>"
    unfolding cfg idx by (simp add: example_defs_unfold sim_defs)
  have found: "findExistingEvent sim_methods
      (storage (module_config (receive example_defs sim_methods 0 learning_node ?f)))
      (word_of_bytes (data ?f ! 1) (data ?f ! 2)) (word_of_bytes (data ?f ! 3) (data ?f ! 4))
      = evlrn_index sim_methods learning_node ?f"
    unfolding st idx by (simp add: data_frame_def sim_defs upt4 word_of_bytes_def)
  have g3: "data ?g ! 3 = findExistingEvent sim_methods
      (storage (module_config (receive example_defs sim_methods 0 learning_node ?f)))
      (word_of_bytes (data ?f ! 1) (data ?f ! 2)) (word_of_bytes (data ?f ! 3) (data ?f ! 4))"
    unfolding found idx by (simp add: data_frame_def)
  have raw: "getEventEVval sim_methods
           (writeEventEV sim_methods
              (if data ?f ! 5 < 2
               then updateEvHashEntry sim_methods
                      (writeEvent sim_methods (storage (module_config learning_node))
                         (evlrn_index sim_methods learning_node ?f) (drop 1 (data ?f)))
                      (evlrn_index sim_methods learning_node ?f)
               else storage (module_config learning_node))
              (evlrn_index sim_methods learning_node ?f) (data ?f ! 5) (data ?f ! 6))
           (evlrn_index sim_methods learning_node ?f) (data ?f ! 5) = data ?f ! 6"
    unfolding idx by (simp add: example_defs_unfold sim_defs)
  have entry: "getEvTableEntry sim_methods
      (storage (module_config (receive example_defs sim_methods 0 learning_node ?f)))
      (evlrn_index sim_methods learning_node ?f) \<noteq> 0"
    unfolding st idx by (simp add: sim_defs)
  have s1: "sent (receive example_defs sim_methods 0 learning_node ?f) =
     [\<lparr>id_f = 0x585, ext = False, rtr = False, len = 3,
       data = [example_defs OPC_WRACK, 1, 4, 0, 20, 1, 0x77, 0]\<rparr>]"
    unfolding receive_EVLRN_sent [OF inj_example_defs basics(2,3,4,5) lt, of 0]
    by (simp add: example_defs_unfold highByte_def lowByte_def)
  from evlrn_reval_roundtrip [OF inj_example_defs basics(1,2,3,4,5) lt basics(6,7,8,9,10) g3 basics(11) raw found entry, of 1]
  show ?thesis
    unfolding s1 by (simp add: example_defs_unfold)
qed

text \<open>
  Claim C3 as stated fails when the event is new and the event variable index is 2 or
  more: the case writes the header \<open>(nn, en)\<close> only when \<open>data[5] < 2\<close>. On the example
  store in learn mode, \<open>EVLRN\<close> for the new event (10, 20) with event variable 2 finds
  slot 0 free, is acknowledged with \<open>WRACK\<close>, and the store reads the value \<open>0x77\<close> back
  at slot 0, variable 2; but \<open>findExistingEvent(10, 20)\<close> then returns 4, which is
  \<open>EE_MAX_EVENTS\<close>, and the \<open>REVAL\<close> with that index is answered with \<open>CMDERR\<close> 6,
  not with \<open>NEVAL\<close>.
\<close>

theorem evlrn_reval_roundtrip_counterexample:
  "bLearn learning_node
   \<and> evlrn_index sim_methods learning_node
        (data_frame 7 7 [example_defs OPC_EVLRN, 0, 10, 0, 20, 2, 0x77, 0]) = 0
   \<and> EE_MAX_EVENTS (module_config learning_node) = 4
   \<and> sent (receive example_defs sim_methods 0 learning_node
        (data_frame 7 7 [example_defs OPC_EVLRN, 0, 10, 0, 20, 2, 0x77, 0])) =
        [\<lparr>id_f = 0x585, ext = False, rtr = False, len = 3,
          data = [example_defs OPC_WRACK, 1, 4, 0, 20, 2, 0x77, 0]\<rparr>]
   \<and> getEventEVval sim_methods
        (storage (module_config (receive example_defs sim_methods 0 learning_node
           (data_frame 7 7 [example_defs OPC_EVLRN, 0, 10, 0, 20, 2, 0x77, 0])))) 0 2 = 0x77
   \<and> findExistingEvent sim_methods
        (storage (module_config (receive example_defs sim_methods 0 learning_node
           (data_frame 7 7 [example_defs OPC_EVLRN, 0, 10, 0, 20, 2, 0x77, 0])))) 10 20 = 4
   \<and> sent (receive example_defs sim_methods 1
        (receive example_defs sim_methods 0 learning_node
           (data_frame 7 7 [example_defs OPC_EVLRN, 0, 10, 0, 20, 2, 0x77, 0]))
        (data_frame 7 5 [example_defs OPC_REVAL, 1, 4, 4, 2, 0, 0, 0])) =
        [\<lparr>id_f = 0x585, ext = False, rtr = False, len = 3,
          data = [example_defs OPC_WRACK, 1, 4, 0, 20, 2, 0x77, 0]\<rparr>,
         \<lparr>id_f = 0x585, ext = False, rtr = False, len = 4,
          data = [example_defs OPC_CMDERR, 1, 4, 6, 2, 0, 0, 0]\<rparr>]
   \<and> example_defs OPC_CMDERR \<noteq> example_defs OPC_NEVAL"
proof -
  let ?f = "data_frame 7 7 [example_defs OPC_EVLRN, 0, 10, 0, 20, 2, 0x77, 0]"
  let ?g = "data_frame 7 5 [example_defs OPC_REVAL, 1, 4, 4, 2, 0, 0, 0]"
  have idx: "evlrn_index sim_methods learning_node ?f = 0"
    by (simp add: example_defs_unfold sim_defs upt4 word_of_bytes_def evlrn_index_def Let_def)
  have lt: "evlrn_index sim_methods learning_node ?f < EE_MAX_EVENTS (module_config learning_node)"
    unfolding idx by (simp add: example_defs_unfold)
  have basics: "\<not> ext ?f" "0 < len ?f" "data ?f ! 0 = example_defs OPC_EVLRN"
    "bLearn learning_node" "\<not> ext ?g" "0 < len ?g"
    "data ?g ! 0 = example_defs OPC_REVAL"
    by (simp_all add: example_defs_unfold)
  note cfg = receive_EVLRN_config [OF inj_example_defs basics(1,2,3,4) lt, of 0]
  have st: "storage (module_config (receive example_defs sim_methods 0 learning_node ?f)) =
        \<lparr> sim_table = [None, None, None, None], sim_hash = [0, 0, 0, 0],
          sim_evs = [[0, 0, 0x77], [0, 0, 0], [0, 0, 0], [0, 0, 0]], sim_nvs = [0, 0, 0, 0, 0] \<rparr>"
    unfolding cfg idx by (simp add: example_defs_unfold sim_defs)
  have nn: "word_of_bytes (data ?g ! 1) (data ?g ! 2)
      = nodeNum (module_config (receive example_defs sim_methods 0 learning_node ?f))"
    unfolding cfg by (simp add: example_defs_unfold word_of_bytes_def)
  have s1: "sent (receive example_defs sim_methods 0 learning_node ?f) =
     [\<lparr>id_f = 0x585, ext = False, rtr = False, len = 3,
       data = [example_defs OPC_WRACK, 1, 4, 0, 20, 2, 0x77, 0]\<rparr>]"
    unfolding receive_EVLRN_sent [OF inj_example_defs basics(1,2,3,4) lt, of 0]
    by (simp add: example_defs_unfold highByte_def lowByte_def)
  have s2: "sent (receive example_defs sim_methods 1
        (receive example_defs sim_methods 0 learning_node ?f) ?g) =
        [\<lparr>id_f = 0x585, ext = False, rtr = False, len = 3,
          data = [example_defs OPC_WRACK, 1, 4, 0, 20, 2, 0x77, 0]\<rparr>,
         \<lparr>id_f = 0x585, ext = False, rtr = False, len = 4,
          data = [example_defs OPC_CMDERR, 1, 4, 6, 2, 0, 0, 0]\<rparr>]"
  proof -
    have c: "CANID (module_config (receive example_defs sim_methods 0 learning_node ?f)) = 5"
      "nodeNum (module_config (receive example_defs sim_methods 0 learning_node ?f)) = 260"
      unfolding cfg by (simp_all add: example_defs_unfold)
    show ?thesis
      unfolding receive_REVAL [OF inj_example_defs basics(5,6,7) nn] s1 st c
      by (simp add: data_frame_def sim_defs highByte_def lowByte_def)
  qed
  have found: "findExistingEvent sim_methods
        (storage (module_config (receive example_defs sim_methods 0 learning_node ?f))) 10 20 = 4"
    unfolding st by (simp add: sim_defs upt4)
  have ev: "getEventEVval sim_methods
        (storage (module_config (receive example_defs sim_methods 0 learning_node ?f))) 0 2 = 0x77"
    unfolding st by (simp add: sim_defs)
  show ?thesis
    using idx s1 s2 found ev by (simp add: example_defs_unfold)
qed


subsection \<open>The enumeration cycle\<close>

lemma enum_state_prims [simp]:
  "enum_state (set_len s n) = enum_state s"
  "enum_state (set_data s i v) = enum_state s"
  "enum_state (sendMessage s r e p) = enum_state s"
  "enum_state (sendWRACK defs s) = enum_state s"
  "enum_state (sendCMDERR defs s cerrno) = enum_state s"
  "enum_state (indicateMode s m) = enum_state s"
  "enum_state (pulse_activity s) = enum_state s"
  "enum_state (flag_clash s) = enum_state s"
  "enum_state (s\<lparr>m_msg := f\<rparr>) = enum_state s"
  "enum_state (s\<lparr>module_config := c\<rparr>) = enum_state s"
  "enum_state (s\<lparr>bModeChanging := b\<rparr>) = enum_state s"
  "enum_state (s\<lparr>bLearn := b\<rparr>) = enum_state s"
  "enum_state (s\<lparr>m_mparams := ps\<rparr>) = enum_state s"
  "enum_state (s\<lparr>handler_calls := hs\<rparr>) = enum_state s"
  "enum_state (s\<lparr>long_fragments := fs\<rparr>) = enum_state s"
  by (simp_all add: enum_state_def msg_defs indicateMode_def pulse_activity_def flag_clash_def Let_def)

lemma enum_state_foldl:
  assumes "\<And>s i. enum_state (step s i) = enum_state s"
  shows "enum_state (foldl step s xs) = enum_state s"
  by (induction xs arbitrary: s) (simp_all add: assms)

lemma enum_state_copy [simp]: "enum_state (copy_to_data s off src) = enum_state s"
  unfolding copy_to_data_def by (rule enum_state_foldl) simp

lemma enum_state_nerd_step [simp]: "enum_state (nerd_step cm s i) = enum_state s"
  by (simp add: nerd_step_def Let_def)

lemma enum_state_cases [simp]:
  "enum_state (case_accessory_long cm opc nn en s) = enum_state s"
  "enum_state (case_accessory_short cm opc en s) = enum_state s"
  "enum_state (case_OPC_RQNP defs s) = enum_state s"
  "enum_state (case_OPC_RQNPN defs nn s) = enum_state s"
  "enum_state (case_OPC_RQNN defs s) = enum_state s"
  "enum_state (case_OPC_CANID defs nn s) = enum_state s"
  "enum_state (case_OPC_NVRD defs cm nn s) = enum_state s"
  "enum_state (case_OPC_NVSET defs cm nn s) = enum_state s"
  "enum_state (case_OPC_NNLRN nn s) = enum_state s"
  "enum_state (case_OPC_EVULN defs cm nn en s) = enum_state s"
  "enum_state (case_OPC_NNULN nn s) = enum_state s"
  "enum_state (case_OPC_RQEVN defs cm nn s) = enum_state s"
  "enum_state (case_OPC_REVAL defs cm nn s) = enum_state s"
  "enum_state (case_OPC_NNCLR defs cm nn s) = enum_state s"
  "enum_state (case_OPC_NNEVN defs cm nn s) = enum_state s"
  "enum_state (case_OPC_QNN defs s) = enum_state s"
  "enum_state (case_OPC_RQMN defs s) = enum_state s"
  "enum_state (case_OPC_EVLRN defs cm nn en s) = enum_state s"
  "enum_state (case_OPC_DTXC s) = enum_state s"
  by (simp_all add: case_accessory_long_def case_accessory_short_def processAccessoryEvent_def
      case_OPC_RQNP_def case_OPC_RQNPN_def case_OPC_RQNN_def case_OPC_CANID_def case_OPC_NVRD_def
      case_OPC_NVSET_def case_OPC_NNLRN_def case_OPC_EVULN_def case_OPC_NNULN_def
      case_OPC_RQEVN_def case_OPC_REVAL_def case_OPC_NNCLR_def case_OPC_NNEVN_def
      case_OPC_QNN_def case_OPC_RQMN_def case_OPC_EVLRN_def case_OPC_DTXC_def Let_def)

lemma enum_state_NERD [simp]: "enum_state (case_OPC_NERD defs cm nn s) = enum_state s"
  by (simp add: case_OPC_NERD_def Let_def enum_state_foldl)











declare scan_bits.simps [simp del] scan_bytes.simps [simp del]

























text \<open>
  Claim C2, evaluated. With no response \<open>checkCANenum\<close> commits 1, and with the
  responses of the peers 1, 2 and 4 it commits 3 and ends the cycle, as the claim says.
  But the identifier committed is not in general the lowest free one: when only the peer
  9 answers, the code commits 2 although 1 is free (the response sets bit \<open>9 % 8 = 1\<close>
  of byte \<open>9 / 16 = 0\<close>, and the scan reads that bit as identifier 1); when the peers
  1 to 7 answer, it commits 16 although 8 is free (the scan numbers bit \<open>b\<close> of byte
  \<open>i\<close> as \<open>i * 16 + b\<close>, with \<open>b\<close> below 8).
\<close>

theorem checkCANenum_selection_examples:
  "CANID (module_config (enumerate_with [])) = 1
   \<and> CANID (module_config (enumerate_with [1, 2, 4])) = 3
   \<and> \<not> bCANenum (enumerate_with [1, 2, 4])
   \<and> CANID (module_config (enumerate_with [9])) = 2
   \<and> 1 \<notin> set [9 :: byte]
   \<and> CANID (module_config (enumerate_with [1, 2, 3, 4, 5, 6, 7])) = 16
   \<and> 8 \<notin> set [1, 2, 3, 4, 5, 6, 7 :: byte]"
  by code_simp

end
